theory Spec2Isabelle
  imports Main
begin

section \<open>RemoteVault: the deposit lifecycle contract\<close>

text \<open>
  The Solidity contract \<open>RemoteVault\<close> (\<open>RemoteVault.sol\<close>) is embedded with explicit
  state passing, one definition per function of the contract and under its name. A
  \<open>uint256\<close> is a natural number: the only arithmetic of the contract is in
  \<open>withdraw\<close>, where checked arithmetic cannot overflow because the yield is the
  constant zero. An \<open>address\<close> is a natural number as well, \<open>address(0)\<close> being 0.
  A call that reverts returns \<open>Inl\<close> with the error; the EVM then discards every
  write of the call, which \<open>commit\<close> below expresses.
\<close>

type_synonym address = nat

datatype DepositStatus = Pending | Sent | Confirmed | Settled | Withdrawn

record RemoteDeposit =
  positionId :: nat
  depositor :: address
  token :: address
  amount :: nat
  timestamp :: nat
  hubPositionId :: nat
  status :: DepositStatus

text \<open>The value a Solidity mapping holds at a key that was never written.\<close>

definition emptyDeposit :: RemoteDeposit where
  "emptyDeposit = \<lparr>positionId = 0, depositor = 0, token = 0, amount = 0, timestamp = 0,
     hubPositionId = 0, status = Pending\<rparr>"

datatype vault_error =
    InvalidAmount
  | InvalidToken
  | InvalidStatus
  | PositionNotFound
  | UnauthorizedWithdrawal
  | HubNotConfigured
  | MessengerNotConfigured
  | NotAuthorized
  | OwnableUnauthorizedAccount
  | FeeTooHigh
  | InvalidRecipient
  | ExternalCallReverted

text \<open>
  The position NFT contract \<open>DealPosition\<close> and the ERC-20 tokens are other contracts.
  The vault only sees the results of its calls to them: \<open>nftOwner\<close> is what
  \<open>positionNFT.ownerOf\<close> answers (\<open>None\<close>: the call reverts, the token does not
  exist), and the outcome of \<open>mint\<close> and of the token transfers is given by the
  environment of the call.
\<close>

record vault =
  deposits :: "nat \<Rightarrow> RemoteDeposit"
  hubVaultAddress :: address
  protocolFeeBps :: nat
  feeRecipient :: address
  messenger :: address
  owner :: address
  nftOwner :: "nat \<Rightarrow> address option"

record call_env =
  msg_sender :: address
  block_timestamp :: nat
  mint_result :: "nat option"
  erc20_ok :: bool

text \<open>The state after the constructor: \<open>protocolFeeBps = 100\<close>, nothing configured.\<close>

definition constructor :: "address \<Rightarrow> address \<Rightarrow> vault" where
  "constructor initialOwner feeRecipient0 =
     \<lparr>deposits = (\<lambda>_. emptyDeposit), hubVaultAddress = 0, protocolFeeBps = 100,
      feeRecipient = feeRecipient0, messenger = 0, owner = initialOwner,
      nftOwner = (\<lambda>_. None)\<rparr>"

definition set_status :: "nat \<Rightarrow> DepositStatus \<Rightarrow> vault \<Rightarrow> vault" where
  "set_status pid s v = v\<lparr>deposits := (deposits v)(pid := (deposits v pid)\<lparr>status := s\<rparr>)\<rparr>"

definition sendToHub_internal :: "nat \<Rightarrow> vault \<Rightarrow> vault_error + vault" where
  "sendToHub_internal pid v =
     (if status (deposits v pid) \<noteq> Pending then Inl InvalidStatus
      else if hubVaultAddress v = 0 then Inl HubNotConfigured
      else Inr (set_status pid Sent v))"

definition deposit :: "call_env \<Rightarrow> address \<Rightarrow> nat \<Rightarrow> vault \<Rightarrow> vault_error + (nat \<times> vault)" where
  "deposit e tok amt v =
     (if tok = 0 then Inl InvalidToken
      else if amt = 0 then Inl InvalidAmount
      else if \<not> erc20_ok e then Inl ExternalCallReverted
      else case mint_result e of
        None \<Rightarrow> Inl ExternalCallReverted
      | Some pid \<Rightarrow>
          let v1 = v\<lparr>nftOwner := (nftOwner v)(pid := Some (msg_sender e))\<rparr>;
              v2 = v1\<lparr>deposits := (deposits v1)(pid :=
                     \<lparr>positionId = pid, depositor = msg_sender e, token = tok, amount = amt,
                      timestamp = block_timestamp e, hubPositionId = 0, status = Pending\<rparr>)\<rparr>
          in if hubVaultAddress v2 \<noteq> 0 \<and> messenger v2 \<noteq> 0
             then (case sendToHub_internal pid v2 of
                     Inl err \<Rightarrow> Inl err
                   | Inr v3 \<Rightarrow> Inr (pid, v3))
             else Inr (pid, v2))"

definition sendToHub :: "call_env \<Rightarrow> nat \<Rightarrow> vault \<Rightarrow> vault_error + vault" where
  "sendToHub e pid v =
     (if msg_sender e \<noteq> owner v then Inl OwnableUnauthorizedAccount
      else sendToHub_internal pid v)"

definition confirmDeposit :: "call_env \<Rightarrow> nat \<Rightarrow> nat \<Rightarrow> vault \<Rightarrow> vault_error + vault" where
  "confirmDeposit e pid hubPid v =
     (if \<not> (msg_sender e = messenger v \<or> msg_sender e = owner v) then Inl NotAuthorized
      else if status (deposits v pid) \<noteq> Sent then Inl InvalidStatus
      else Inr (v\<lparr>deposits := (deposits v)(pid :=
                  (deposits v pid)\<lparr>hubPositionId := hubPid, status := Confirmed\<rparr>)\<rparr>))"

text \<open>\<open>principal\<close> and \<open>yieldAmount\<close> only go into the emitted event: nothing is stored.\<close>

definition receiveSettlement ::
  "call_env \<Rightarrow> nat \<Rightarrow> nat \<Rightarrow> nat \<Rightarrow> vault \<Rightarrow> vault_error + vault" where
  "receiveSettlement e pid principalAmt yieldAmount v =
     (if \<not> (msg_sender e = messenger v \<or> msg_sender e = owner v) then Inl NotAuthorized
      else if status (deposits v pid) \<noteq> Confirmed then Inl InvalidStatus
      else Inr (set_status pid Settled v))"

text \<open>
  \<open>withdraw\<close> returns nothing in the source; the pair returned here is what it hands to
  \<open>safeTransfer\<close>: \<open>totalAmount\<close> for the caller and \<open>fee\<close> for the fee recipient.
\<close>

definition withdraw :: "call_env \<Rightarrow> nat \<Rightarrow> vault \<Rightarrow> vault_error + ((nat \<times> nat) \<times> vault)" where
  "withdraw e pid v =
     (case nftOwner v pid of
        None \<Rightarrow> Inl ExternalCallReverted
      | Some holder \<Rightarrow>
          if holder \<noteq> msg_sender e then Inl UnauthorizedWithdrawal
          else if status (deposits v pid) \<noteq> Settled then Inl InvalidStatus
          else if positionId (deposits v pid) = 0 then Inl PositionNotFound
          else
            let principalAmt = amount (deposits v pid);
                yieldAmount = (0::nat);
                fee = (yieldAmount * protocolFeeBps v) div 10000;
                netYield = yieldAmount - fee;
                totalAmount = principalAmt + netYield;
                v1 = set_status pid Withdrawn v;
                v2 = v1\<lparr>nftOwner := (nftOwner v1)(pid := None)\<rparr>
            in if \<not> erc20_ok e then Inl ExternalCallReverted
               else Inr ((totalAmount, fee), v2))"

definition emergencyWithdraw :: "call_env \<Rightarrow> nat \<Rightarrow> vault \<Rightarrow> vault_error + (nat \<times> vault)" where
  "emergencyWithdraw e pid v =
     (case nftOwner v pid of
        None \<Rightarrow> Inl ExternalCallReverted
      | Some holder \<Rightarrow>
          if holder \<noteq> msg_sender e then Inl UnauthorizedWithdrawal
          else if status (deposits v pid) \<noteq> Pending then Inl InvalidStatus
          else
            let amt = amount (deposits v pid);
                v1 = set_status pid Withdrawn v;
                v2 = v1\<lparr>nftOwner := (nftOwner v1)(pid := None)\<rparr>
            in if \<not> erc20_ok e then Inl ExternalCallReverted
               else Inr (amt, v2))"

definition setHubVault :: "call_env \<Rightarrow> address \<Rightarrow> vault \<Rightarrow> vault_error + vault" where
  "setHubVault e hub v =
     (if msg_sender e \<noteq> owner v then Inl OwnableUnauthorizedAccount
      else Inr (v\<lparr>hubVaultAddress := hub\<rparr>))"

definition setMessenger :: "call_env \<Rightarrow> address \<Rightarrow> vault \<Rightarrow> vault_error + vault" where
  "setMessenger e m v =
     (if msg_sender e \<noteq> owner v then Inl OwnableUnauthorizedAccount
      else Inr (v\<lparr>messenger := m\<rparr>))"

definition setProtocolFee :: "call_env \<Rightarrow> nat \<Rightarrow> vault \<Rightarrow> vault_error + vault" where
  "setProtocolFee e newFeeBps v =
     (if msg_sender e \<noteq> owner v then Inl OwnableUnauthorizedAccount
      else if \<not> newFeeBps \<le> 1000 then Inl FeeTooHigh
      else Inr (v\<lparr>protocolFeeBps := newFeeBps\<rparr>))"

definition setFeeRecipient :: "call_env \<Rightarrow> address \<Rightarrow> vault \<Rightarrow> vault_error + vault" where
  "setFeeRecipient e newRecipient v =
     (if msg_sender e \<noteq> owner v then Inl OwnableUnauthorizedAccount
      else if newRecipient = 0 then Inl InvalidRecipient
      else Inr (v\<lparr>feeRecipient := newRecipient\<rparr>))"

text \<open>The external functions of the contract as one transaction type.\<close>

datatype vault_call =
    Deposit address nat
  | SendToHub nat
  | ConfirmDeposit nat nat
  | ReceiveSettlement nat nat nat
  | Withdraw nat
  | EmergencyWithdraw nat
  | SetHubVault address
  | SetMessenger address
  | SetProtocolFee nat
  | SetFeeRecipient address

fun exec :: "call_env \<Rightarrow> vault_call \<Rightarrow> vault \<Rightarrow> vault_error + vault" where
  "exec e (Deposit tok amt) v = map_sum id snd (deposit e tok amt v)"
| "exec e (SendToHub pid) v = sendToHub e pid v"
| "exec e (ConfirmDeposit pid hubPid) v = confirmDeposit e pid hubPid v"
| "exec e (ReceiveSettlement pid p y) v = receiveSettlement e pid p y v"
| "exec e (Withdraw pid) v = map_sum id snd (withdraw e pid v)"
| "exec e (EmergencyWithdraw pid) v = map_sum id snd (emergencyWithdraw e pid v)"
| "exec e (SetHubVault a) v = setHubVault e a v"
| "exec e (SetMessenger a) v = setMessenger e a v"
| "exec e (SetProtocolFee n) v = setProtocolFee e n v"
| "exec e (SetFeeRecipient a) v = setFeeRecipient e a v"

text \<open>The state the chain holds after the transaction: a revert changes nothing.\<close>

definition commit :: "call_env \<Rightarrow> vault_call \<Rightarrow> vault \<Rightarrow> vault" where
  "commit e c v = (case exec e c v of Inl _ \<Rightarrow> v | Inr v' \<Rightarrow> v')"

text \<open>The edges of the lifecycle graph, and staying put.\<close>

fun lifecycle_edge :: "DepositStatus \<Rightarrow> DepositStatus \<Rightarrow> bool" where
  "lifecycle_edge Pending Sent = True"
| "lifecycle_edge Sent Confirmed = True"
| "lifecycle_edge Confirmed Settled = True"
| "lifecycle_edge Settled Withdrawn = True"
| "lifecycle_edge Pending Withdrawn = True"
| "lifecycle_edge _ _ = False"

definition forward :: "DepositStatus \<Rightarrow> DepositStatus \<Rightarrow> bool" where
  "forward a b = (a = b \<or> lifecycle_edge a b)"

text \<open>
  \<open>deposit\<close> writes a whole record at the id the NFT contract minted: \<open>creates_record\<close>
  holds of a deposit call and the id it writes at, and of nothing else.
\<close>

fun creates_record :: "call_env \<Rightarrow> vault_call \<Rightarrow> nat \<Rightarrow> bool" where
  "creates_record e (Deposit tok amt) q = (mint_result e = Some q)"
| "creates_record e _ q = False"

text \<open>The lifecycle table: the deposit a transition acts on, the status it requires and
  the status it sets.\<close>

fun transition_of :: "vault_call \<Rightarrow> (nat \<times> DepositStatus \<times> DepositStatus) option" where
  "transition_of (SendToHub p) = Some (p, Pending, Sent)"
| "transition_of (ConfirmDeposit p h) = Some (p, Sent, Confirmed)"
| "transition_of (ReceiveSettlement p a y) = Some (p, Confirmed, Settled)"
| "transition_of (Withdraw p) = Some (p, Settled, Withdrawn)"
| "transition_of (EmergencyWithdraw p) = Some (p, Pending, Withdrawn)"
| "transition_of _ = None"

text \<open>The caller passes the check that the transition makes before it reads the status:
  \<open>onlyOwner\<close>, the messenger-or-owner \<open>require\<close>, or the ownership of the position NFT.\<close>

fun caller_admitted :: "call_env \<Rightarrow> vault_call \<Rightarrow> vault \<Rightarrow> bool" where
  "caller_admitted e (SendToHub p) v = (msg_sender e = owner v)"
| "caller_admitted e (ConfirmDeposit p h) v = (msg_sender e = messenger v \<or> msg_sender e = owner v)"
| "caller_admitted e (ReceiveSettlement p a y) v =
     (msg_sender e = messenger v \<or> msg_sender e = owner v)"
| "caller_admitted e (Withdraw p) v = (nftOwner v p = Some (msg_sender e))"
| "caller_admitted e (EmergencyWithdraw p) v = (nftOwner v p = Some (msg_sender e))"
| "caller_admitted e _ v = True"

text \<open>The error of that check when the caller does not pass it.\<close>

fun caller_error :: "call_env \<Rightarrow> vault_call \<Rightarrow> vault \<Rightarrow> vault_error" where
  "caller_error e (SendToHub p) v = OwnableUnauthorizedAccount"
| "caller_error e (ConfirmDeposit p h) v = NotAuthorized"
| "caller_error e (ReceiveSettlement p a y) v = NotAuthorized"
| "caller_error e (Withdraw p) v =
     (case nftOwner v p of None \<Rightarrow> ExternalCallReverted | Some holder \<Rightarrow> UnauthorizedWithdrawal)"
| "caller_error e (EmergencyWithdraw p) v =
     (case nftOwner v p of None \<Rightarrow> ExternalCallReverted | Some holder \<Rightarrow> UnauthorizedWithdrawal)"
| "caller_error e _ v = OwnableUnauthorizedAccount"

subsection \<open>A concrete deposit, from creation to settlement\<close>

text \<open>
  Account 1 owns the vault, account 2 receives fees, account 5 is the liquidity provider,
  token 7 is deposited and the NFT contract mints position 1. The fee is the constructor's
  100 basis points.
\<close>

definition env_of :: "address \<Rightarrow> call_env" where
  "env_of a = \<lparr>msg_sender = a, block_timestamp = 1700000000, mint_result = Some 1,
     erc20_ok = True\<rparr>"

definition vault_configured :: vault where
  "vault_configured = commit (env_of 1) (SetHubVault 9) (constructor 1 2)"

definition vault_pending :: vault where
  "vault_pending = commit (env_of 5) (Deposit 7 1000000) vault_configured"

definition vault_sent :: vault where
  "vault_sent = commit (env_of 1) (SendToHub 1) vault_pending"

definition vault_confirmed :: vault where
  "vault_confirmed = commit (env_of 1) (ConfirmDeposit 1 42) vault_sent"

definition vault_settled :: vault where
  "vault_settled = commit (env_of 1) (ReceiveSettlement 1 1000000 100000) vault_confirmed"

definition vault_withdrawn :: vault where
  "vault_withdrawn = commit (env_of 5) (Withdraw 1) vault_settled"

text \<open>
  Before any deposit, the owner sends, confirms and settles position 1, which has no
  record; the deposit that mints position 1 comes afterwards.
\<close>

definition vault_prefilled :: vault where
  "vault_prefilled =
     commit (env_of 1) (ReceiveSettlement 1 0 0)
       (commit (env_of 1) (ConfirmDeposit 1 42)
         (commit (env_of 1) (SendToHub 1) vault_configured))"

section \<open>NitroliteService: the channel ledger\<close>

text \<open>
  \<open>NitroliteService.ts\<close>. The service keeps two tables through Prisma. \<open>channelState\<close>
  has one row per channel, found by its unique \<open>channelId\<close>; \<open>stateHistory\<close> only ever
  gets rows appended, so it is a list in insertion order. A \<open>bigint\<close> is an \<open>int\<close>. The amounts are stored as the decimal
  strings of \<open>bigint\<close>s and are kept here as the numbers themselves. Every method catches an
  exception only to log and rethrow it, so an exception is the \<open>Inl\<close> result. The
  exceptions modelled are those the methods raise themselves, a failed remote call and
  the unique constraint on \<open>channelId\<close>; any other failure of the database is left out.
\<close>

datatype StateIntent = INITIALIZE | OPERATE | FINALIZE

record Allocation =
  destination :: "string option"
  alloc_amount :: int

text \<open>
  \<open>stateHash\<close> is the session id at creation and \<open>newVersion.toString()\<close> afterwards;
  \<open>stateData\<close> is \<open>encodeDealId(dealId)\<close> at creation or a string given by the caller.
\<close>

datatype state_hash = SessionHash string | VersionHash int

datatype state_data = EncodedDealId int | RawData string

record StateSnapshot =
  channelId :: string
  version :: int
  stateHash :: state_hash
  intent :: StateIntent
  allocation0 :: Allocation
  allocation1 :: Allocation
  stateData :: state_data

record ChannelState = StateSnapshot +
  dealId :: int
  participants :: "string list"

record database =
  channelStates :: "string \<Rightarrow> ChannelState option"
  stateHistory :: "StateSnapshot list"

datatype nitro_error = ChannelStateNotFound | CreateAppSessionFailed | UniqueConstraintFailed

definition empty_database :: database where
  "empty_database = \<lparr>channelStates = (\<lambda>_. None), stateHistory = []\<rparr>"

text \<open>\<open>participants[i]\<close>: \<open>undefined\<close> beyond the end of the array.\<close>

definition participant_at :: "string list \<Rightarrow> nat \<Rightarrow> string option" where
  "participant_at ps i = (if i < length ps then Some (ps ! i) else None)"

text \<open>
  \<open>session\<close> is what \<open>clearNodeService.createAppSession\<close> answered: \<open>None\<close> when it threw,
  else the session id and its status. The result is the returned channel id and status.
\<close>

definition createChannelForDeal ::
  "database \<Rightarrow> (string \<times> string) option \<Rightarrow> int \<Rightarrow> string \<Rightarrow> string \<Rightarrow> int
   \<Rightarrow> nitro_error + ((string \<times> string) \<times> database)" where
  "createChannelForDeal db session deal dealer lp lpAmount =
     (case session of
        None \<Rightarrow> Inl CreateAppSessionFailed
      | Some (sid, sstatus) \<Rightarrow>
          if channelStates db sid \<noteq> None then Inl UniqueConstraintFailed
          else
            let a0 = \<lparr>destination = Some dealer, alloc_amount = 0\<rparr>;
                a1 = \<lparr>destination = Some lp, alloc_amount = lpAmount\<rparr>;
                row = \<lparr>channelId = sid, version = 1, stateHash = SessionHash sid,
                       intent = INITIALIZE, allocation0 = a0, allocation1 = a1,
                       stateData = EncodedDealId deal, dealId = deal,
                       participants = [dealer, lp]\<rparr>;
                hist = \<lparr>channelId = sid, version = 1, stateHash = SessionHash sid,
                        intent = INITIALIZE, allocation0 = a0, allocation1 = a1,
                        stateData = EncodedDealId deal\<rparr>
            in Inr ((sid, sstatus),
                    db\<lparr>channelStates := (channelStates db)(sid := Some row),
                       stateHistory := stateHistory db @ [hist]\<rparr>))"

text \<open>\<open>stateData || currentState.stateData\<close>: a missing or empty string is falsy.\<close>

definition stateData_or :: "string option \<Rightarrow> state_data \<Rightarrow> state_data" where
  "stateData_or given current =
     (case given of
        None \<Rightarrow> current
      | Some s \<Rightarrow> if s = [] then current else RawData s)"

definition updateChannelState ::
  "database \<Rightarrow> string \<Rightarrow> int \<Rightarrow> int \<Rightarrow> string option
   \<Rightarrow> nitro_error + ((string \<times> int) \<times> database)" where
  "updateChannelState db cid newAmount0 newAmount1 sd =
     (case channelStates db cid of
        None \<Rightarrow> Inl ChannelStateNotFound
      | Some currentState \<Rightarrow>
          let ps = participants currentState;
              newVersion = version currentState + 1;
              a0 = \<lparr>destination = participant_at ps 0, alloc_amount = newAmount0\<rparr>;
              a1 = \<lparr>destination = participant_at ps 1, alloc_amount = newAmount1\<rparr>;
              row = currentState\<lparr>version := newVersion, intent := OPERATE,
                      allocation0 := a0, allocation1 := a1,
                      stateData := stateData_or sd (stateData currentState)\<rparr>;
              hist = \<lparr>channelId = cid, version = newVersion,
                      stateHash = VersionHash newVersion, intent = OPERATE,
                      allocation0 = a0, allocation1 = a1,
                      stateData = stateData_or sd (stateData currentState)\<rparr>
          in Inr ((cid, newVersion),
                  db\<lparr>channelStates := (channelStates db)(cid := Some row),
                     stateHistory := stateHistory db @ [hist]\<rparr>))"

text \<open>\<open>finalizeChannel\<close> updates the row of the channel and writes no history row.\<close>

definition finalizeChannel ::
  "database \<Rightarrow> string \<Rightarrow> int \<Rightarrow> int \<Rightarrow> nitro_error + ((string \<times> bool) \<times> database)" where
  "finalizeChannel db cid finalAmount0 finalAmount1 =
     (case channelStates db cid of
        None \<Rightarrow> Inl ChannelStateNotFound
      | Some currentState \<Rightarrow>
          let ps = participants currentState;
              row = currentState\<lparr>version := version currentState + 1, intent := FINALIZE,
                      allocation0 := \<lparr>destination = participant_at ps 0,
                                       alloc_amount = finalAmount0\<rparr>,
                      allocation1 := \<lparr>destination = participant_at ps 1,
                                       alloc_amount = finalAmount1\<rparr>\<rparr>
          in Inr ((cid, True), db\<lparr>channelStates := (channelStates db)(cid := Some row)\<rparr>))"

text \<open>The history of one channel, oldest entry first, and the versions it holds.\<close>

definition history_of :: "database \<Rightarrow> string \<Rightarrow> StateSnapshot list" where
  "history_of db cid = filter (\<lambda>h. channelId h = cid) (stateHistory db)"

definition history_versions :: "database \<Rightarrow> string \<Rightarrow> int list" where
  "history_versions db cid = map version (history_of db cid)"

definition current_version :: "database \<Rightarrow> string \<Rightarrow> int option" where
  "current_version db cid = map_option version (channelStates db cid)"

definition current_intent :: "database \<Rightarrow> string \<Rightarrow> StateIntent option" where
  "current_intent db cid = map_option intent (channelStates db cid)"

definition current_amounts :: "database \<Rightarrow> string \<Rightarrow> (int \<times> int) option" where
  "current_amounts db cid =
     map_option (\<lambda>s. (alloc_amount (allocation0 s), alloc_amount (allocation1 s)))
       (channelStates db cid)"

text \<open>The database a call leaves behind: an exception leaves the one it found.\<close>

definition db_after :: "database \<Rightarrow> nitro_error + ('r \<times> database) \<Rightarrow> database" where
  "db_after db res = (case res of Inl _ \<Rightarrow> db | Inr (_, db') \<Rightarrow> db')"

subsection \<open>A concrete channel: created, finalized, then updated again\<close>

definition db_created :: database where
  "db_created = db_after empty_database
     (createChannelForDeal empty_database (Some (''ch1'', ''open'')) 7 ''dealer'' ''lp'' 1000)"

definition db_finalized :: database where
  "db_finalized = db_after db_created (finalizeChannel db_created ''ch1'' 400 600)"

definition db_reopened :: database where
  "db_reopened = db_after db_finalized (updateChannelState db_finalized ''ch1'' 300 700 None)"

section \<open>ClearNodeService: the protocol client\<close>

text \<open>
  \<open>ClearNodeService.ts\<close>, with the constants of \<open>config/clearnode.ts\<close>. The client is
  single-threaded and event-driven: a public method or an event handler runs
  to completion, and every \<open>await\<close> in them waits for a function that does no I/O, so each
  is one step on the state of the service. What the environment decides is an argument of
  the step: the reading of \<open>Date.now()\<close>, whether signing and \<open>ws.send\<close> went through
  without an exception, and which event of which socket comes next.

  Sockets and promises are numbered from one counter. The promise that \<open>connect()\<close>
  returns carries the number of the socket the call opens, because the handlers of that
  socket hold its \<open>resolve\<close> and \<open>reject\<close>. Every call of \<open>resolve\<close> or \<open>reject\<close> is
  appended to \<open>settled\<close>; a promise takes the first outcome it is given, later ones are
  without effect. Every call of \<open>emit\<close> is appended to \<open>emitted\<close>, every frame handed to
  \<open>ws.send\<close> to \<open>sent\<close>, every \<open>ws.close\<close> to \<open>closeCalls\<close>. What the service writes
  to its logger is not part of the state.
\<close>

datatype ConnectionStatus =
  Disconnected | Connecting | Connected | Authenticating | Authenticated | ErrorStatus

text \<open>The messages of the \<open>Error\<close> objects the service creates.\<close>

datatype client_error =
    ServiceNotInitialized        \<comment> \<open>Service not initialized\<close>
  | ConnectionTimeout            \<comment> \<open>Connection timeout\<close>
  | NotAuthenticated             \<comment> \<open>Not authenticated\<close>
  | SignerNotInitialized         \<comment> \<open>Message signer not initialized\<close>
  | RequestTimeout string        \<comment> \<open>Request timeout for (method)\<close>
  | RemoteError string string    \<comment> \<open>(code): (message)\<close>
  | ConnectionClosed             \<comment> \<open>Connection closed\<close>
  | AuthenticationFailed         \<comment> \<open>Authentication failed\<close>
  | NoChallenge                  \<comment> \<open>No challenge in response\<close>
  | SendFailed                   \<comment> \<open>whatever signing or ws.send threw\<close>

text \<open>The third element of a \<open>res\<close> tuple: the fields the service reads, and the rest.\<close>

record rpc_result =
  challengeMessage :: "string option"
  success :: bool
  jwtTokenField :: "string option"
  body :: string

datatype ws_data =
    Unparseable
  | Message "(int \<times> string \<times> rpc_result) option" "(int \<times> string \<times> string) option"

datatype out_params = AuthRequestParams | AuthVerifyParams string | RequestParams string

record out_frame =
  frame_id :: int
  frame_method :: string
  frame_params :: out_params

datatype outcome = ResolvedVoid | Resolved rpc_result | Rejected client_error

datatype emitted_event =
    EvConnecting
  | EvConnected
  | EvDisconnected int string
  | EvAuthenticated "string option"
  | EvMessage ws_data
  | EvError string
  | EvReconnecting nat

record client =
  ws :: "nat option"
  initialized :: bool
  connectionStatus :: ConnectionStatus
  isAuthenticated :: bool
  jwtToken :: "string option"
  reconnectAttempts :: nat
  requestMap :: "(int \<times> nat) list"
  nextId :: nat
  settled :: "(nat \<times> outcome) list"
  emitted :: "emitted_event list"
  sent :: "out_frame list"
  closeCalls :: "nat list"
  connTimers :: "nat list"
  reqTimers :: "(nat \<times> int \<times> string) list"
  reconnectTimers :: "nat list"

text \<open>\<open>CLEARNODE_CONFIG\<close>.\<close>

definition maxReconnectAttempts :: nat where "maxReconnectAttempts = 5"
definition reconnectInterval :: nat where "reconnectInterval = 3000"
definition reconnectBackoffMultiplier :: nat where "reconnectBackoffMultiplier = 2"
definition requestTimeout :: nat where "requestTimeout = 30000"
definition connectionTimeout :: nat where "connectionTimeout = 10000"

definition new_client :: client where
  "new_client = \<lparr>ws = None, initialized = False, connectionStatus = Disconnected,
     isAuthenticated = False, jwtToken = None, reconnectAttempts = 0, requestMap = [],
     nextId = 0, settled = [], emitted = [], sent = [], closeCalls = [], connTimers = [],
     reqTimers = [], reconnectTimers = []\<rparr>"

subsection \<open>The JavaScript Map of pending requests, promises and timers\<close>

definition map_get :: "(int \<times> nat) list \<Rightarrow> int \<Rightarrow> nat option" where
  "map_get m k = map_of m k"

definition map_set :: "int \<Rightarrow> nat \<Rightarrow> (int \<times> nat) list \<Rightarrow> (int \<times> nat) list" where
  "map_set k v m =
     (if k \<in> fst ` set m then map (\<lambda>(k', v'). if k' = k then (k, v) else (k', v')) m
      else m @ [(k, v)])"

definition map_delete :: "int \<Rightarrow> (int \<times> nat) list \<Rightarrow> (int \<times> nat) list" where
  "map_delete k m = filter (\<lambda>(k', v'). k' \<noteq> k) m"

definition settle :: "nat \<Rightarrow> outcome \<Rightarrow> client \<Rightarrow> client" where
  "settle p out st = st\<lparr>settled := settled st @ [(p, out)]\<rparr>"

definition outcome_of :: "client \<Rightarrow> nat \<Rightarrow> outcome option" where
  "outcome_of st p = map_of (settled st) p"

definition emit :: "emitted_event \<Rightarrow> client \<Rightarrow> client" where
  "emit ev st = st\<lparr>emitted := emitted st @ [ev]\<rparr>"

text \<open>\<open>this.ws?.send(frame)\<close>\<close>

definition ws_send :: "out_frame \<Rightarrow> client \<Rightarrow> client" where
  "ws_send f st = (case ws st of None \<Rightarrow> st | Some k \<Rightarrow> st\<lparr>sent := sent st @ [f]\<rparr>)"

definition clear_request_timer :: "nat \<Rightarrow> client \<Rightarrow> client" where
  "clear_request_timer p st = st\<lparr>reqTimers := filter (\<lambda>(q, i, m). q \<noteq> p) (reqTimers st)\<rparr>"

definition clear_connection_timer :: "nat \<Rightarrow> client \<Rightarrow> client" where
  "clear_connection_timer k st = st\<lparr>connTimers := filter (\<lambda>j. j \<noteq> k) (connTimers st)\<rparr>"

subsection \<open>Methods and handlers\<close>

definition initialize :: "bool \<Rightarrow> client \<Rightarrow> client" where
  "initialize keyValid st = (if keyValid then st\<lparr>initialized := True\<rparr> else st)"

text \<open>
  \<open>connect()\<close>: the result is the state and the number of the promise returned.
  \<open>if (this.ws) this.ws.close()\<close> is the \<open>closeCalls\<close> entry for the old socket.
\<close>

definition connect :: "client \<Rightarrow> client \<times> nat" where
  "connect st =
     (let p = nextId st; st1 = st\<lparr>nextId := p + 1\<rparr> in
      if \<not> initialized st1 then (settle p (Rejected ServiceNotInitialized) st1, p)
      else
        let st2 = (case ws st1 of None \<Rightarrow> st1
                   | Some old \<Rightarrow> st1\<lparr>closeCalls := closeCalls st1 @ [old]\<rparr>);
            st3 = emit EvConnecting (st2\<lparr>connectionStatus := Connecting\<rparr>)
        in (st3\<lparr>ws := Some p, connTimers := connTimers st3 @ [p]\<rparr>, p))"

text \<open>The callback of the connection timeout of socket \<open>k\<close>.\<close>

definition on_connection_timeout :: "nat \<Rightarrow> client \<Rightarrow> client" where
  "on_connection_timeout k st =
     (if k \<notin> set (connTimers st) then st
      else
        let st1 = clear_connection_timer k st in
        if connectionStatus st1 = Connecting
        then settle k (Rejected ConnectionTimeout)
               (case ws st1 of None \<Rightarrow> st1
                | Some cur \<Rightarrow> st1\<lparr>closeCalls := closeCalls st1 @ [cur]\<rparr>)
        else st1)"

text \<open>
  \<open>startAuthentication\<close> sends the \<open>auth_request\<close> and returns; it waits for no answer.
  The result is the exception it throws, if any, with the state it leaves.
\<close>

definition startAuthentication ::
  "int \<Rightarrow> bool \<Rightarrow> client \<Rightarrow> client_error option \<times> client" where
  "startAuthentication now sendOk st =
     (if \<not> initialized st then (Some ServiceNotInitialized, st)
      else
        let st1 = st\<lparr>connectionStatus := Authenticating\<rparr> in
        if \<not> sendOk then (Some SendFailed, st1)
        else (None, ws_send \<lparr>frame_id = now, frame_method = ''auth_request'',
                             frame_params = AuthRequestParams\<rparr> st1))"

text \<open>The \<open>open\<close> handler of socket \<open>k\<close>: \<open>await this.startAuthentication(); resolve()\<close>.\<close>

definition on_open :: "nat \<Rightarrow> int \<Rightarrow> bool \<Rightarrow> client \<Rightarrow> client" where
  "on_open k now sendOk st =
     (let st1 = clear_connection_timer k st;
          st2 = emit EvConnected (st1\<lparr>connectionStatus := Connected, reconnectAttempts := 0\<rparr>)
      in case startAuthentication now sendOk st2 of
           (None, st3) \<Rightarrow> settle k ResolvedVoid st3
         | (Some err, st3) \<Rightarrow> settle k (Rejected err) st3)"

definition handleAuthChallenge ::
  "rpc_result \<Rightarrow> int \<Rightarrow> bool \<Rightarrow> client \<Rightarrow> client_error + client" where
  "handleAuthChallenge result now sendOk st =
     (if \<not> initialized st then Inl ServiceNotInitialized
      else case challengeMessage result of
        None \<Rightarrow> Inl NoChallenge
      | Some challenge \<Rightarrow>
          if challenge = [] then Inl NoChallenge
          else if \<not> sendOk then Inl SendFailed
          else Inr (ws_send \<lparr>frame_id = now, frame_method = ''auth_verify'',
                             frame_params = AuthVerifyParams challenge\<rparr> st))"

definition truthy :: "string option \<Rightarrow> bool" where
  "truthy s = (case s of None \<Rightarrow> False | Some t \<Rightarrow> t \<noteq> [])"

definition handleAuthSuccess :: "rpc_result \<Rightarrow> client \<Rightarrow> client_error + client" where
  "handleAuthSuccess result st =
     (if success result
      then Inr (emit (EvAuthenticated (jwtTokenField result))
                 (st\<lparr>isAuthenticated := True, connectionStatus := Authenticated,
                    jwtToken := (if truthy (jwtTokenField result) then jwtTokenField result
                                 else jwtToken st)\<rparr>))
      else Inl AuthenticationFailed)"

text \<open>The \<open>res\<close> branch for a method that is not of the handshake.\<close>

definition dispatch_response :: "int \<Rightarrow> rpc_result \<Rightarrow> client \<Rightarrow> client" where
  "dispatch_response requestId result st =
     (case map_get (requestMap st) requestId of
        None \<Rightarrow> st
      | Some h \<Rightarrow>
          let st1 = settle h (Resolved result) (clear_request_timer h st)
          in st1\<lparr>requestMap := map_delete requestId (requestMap st1)\<rparr>)"

text \<open>The \<open>err\<close> branch.\<close>

definition dispatch_error :: "int \<Rightarrow> string \<Rightarrow> string \<Rightarrow> client \<Rightarrow> client" where
  "dispatch_error requestId code errorMessage st =
     (let st2 = (case map_get (requestMap st) requestId of
                   None \<Rightarrow> st
                 | Some h \<Rightarrow>
                     let st1 = settle h (Rejected (RemoteError code errorMessage))
                                 (clear_request_timer h st)
                     in st1\<lparr>requestMap := map_delete requestId (requestMap st1)\<rparr>)
      in emit (EvError errorMessage) st2)"

definition err_branch :: "(int \<times> string \<times> string) option \<Rightarrow> client \<Rightarrow> client" where
  "err_branch err st =
     (case err of
        None \<Rightarrow> st
      | Some (requestId, code, errorMessage) \<Rightarrow> dispatch_error requestId code errorMessage st)"

text \<open>
  \<open>handleMessage\<close>: the whole body is in a \<open>try\<close> whose \<open>catch\<close> only logs, so an exception
  of a handshake handler ends the handling and reaches nobody. Both handshake handlers
  throw before they change anything.
\<close>

definition handleMessage :: "ws_data \<Rightarrow> int \<Rightarrow> bool \<Rightarrow> client \<Rightarrow> client" where
  "handleMessage data now sendOk st =
     (case data of
        Unparseable \<Rightarrow> st
      | Message res err \<Rightarrow>
          (case res of
             None \<Rightarrow> err_branch err st
           | Some (requestId, method, result) \<Rightarrow>
               if method = ''auth_challenge''
               then (case handleAuthChallenge result now sendOk st of
                       Inl e \<Rightarrow> st
                     | Inr st1 \<Rightarrow> st1)
               else if method = ''auth_verify''
               then (case handleAuthSuccess result st of
                       Inl e \<Rightarrow> st
                     | Inr st1 \<Rightarrow> st1)
               else err_branch err
                      (emit (EvMessage data) (dispatch_response requestId result st))))"

text \<open>
  \<open>sendRequest\<close>: \<open>now\<close> is the \<open>Date.now()\<close> that becomes the key of the pending entry,
  \<open>nowFrame\<close> the \<open>Date.now()\<close> that \<open>createSignedRequest\<close> reads for the id in the frame.
  The result is the state and the number of the promise returned.
\<close>

definition sendRequest ::
  "string \<Rightarrow> string \<Rightarrow> int \<Rightarrow> int \<Rightarrow> bool \<Rightarrow> client \<Rightarrow> client \<times> nat" where
  "sendRequest method params now nowFrame sendOk st =
     (let p = nextId st; st0 = st\<lparr>nextId := p + 1\<rparr> in
      if \<not> isAuthenticated st0 then (settle p (Rejected NotAuthenticated) st0, p)
      else if \<not> initialized st0 then (settle p (Rejected SignerNotInitialized) st0, p)
      else
        let requestId = now;
            st1 = st0\<lparr>reqTimers := reqTimers st0 @ [(p, requestId, method)]\<rparr>;
            st2 = st1\<lparr>requestMap := map_set requestId p (requestMap st1)\<rparr>
        in if sendOk
           then (ws_send \<lparr>frame_id = nowFrame, frame_method = method,
                          frame_params = RequestParams params\<rparr> st2, p)
           else
             let st3 = clear_request_timer p st2;
                 st4 = st3\<lparr>requestMap := map_delete requestId (requestMap st3)\<rparr>
             in (settle p (Rejected SendFailed) st4, p))"

text \<open>The callback of the request timeout set for promise \<open>p\<close>.\<close>

definition on_request_timeout :: "nat \<Rightarrow> int \<Rightarrow> string \<Rightarrow> client \<Rightarrow> client" where
  "on_request_timeout p requestId method st =
     (if (p, requestId, method) \<notin> set (reqTimers st) then st
      else
        let st1 = st\<lparr>reqTimers := remove1 (p, requestId, method) (reqTimers st)\<rparr>;
            st2 = st1\<lparr>requestMap := map_delete requestId (requestMap st1)\<rparr>
        in settle p (Rejected (RequestTimeout method)) st2)"

text \<open>
  \<open>attemptReconnect\<close>: at the maximum it logs and returns. Otherwise it counts the attempt,
  emits \<open>reconnecting\<close> and sets a timer of \<open>delay\<close> milliseconds for a \<open>connect()\<close>;
  \<open>Math.pow\<close> is exact on these small integers.
\<close>

definition attemptReconnect :: "client \<Rightarrow> client" where
  "attemptReconnect st =
     (if reconnectAttempts st \<ge> maxReconnectAttempts then st
      else
        let st1 = st\<lparr>reconnectAttempts := reconnectAttempts st + 1\<rparr>;
            delay = reconnectInterval * reconnectBackoffMultiplier ^ (reconnectAttempts st1 - 1);
            st2 = emit (EvReconnecting (reconnectAttempts st1)) st1
        in st2\<lparr>reconnectTimers := reconnectTimers st2 @ [delay]\<rparr>)"

text \<open>The callback of a reconnect timer: \<open>connect()\<close>, a rejection of which is only logged.\<close>

definition on_reconnect_timer :: "nat \<Rightarrow> client \<Rightarrow> client" where
  "on_reconnect_timer delay st =
     (if delay \<notin> set (reconnectTimers st) then st
      else fst (connect (st\<lparr>reconnectTimers := remove1 delay (reconnectTimers st)\<rparr>)))"

text \<open>The \<open>error\<close> and \<open>close\<close> handlers of socket \<open>k\<close>.\<close>

definition on_error :: "nat \<Rightarrow> string \<Rightarrow> client \<Rightarrow> client" where
  "on_error k msg st = emit (EvError msg) (clear_connection_timer k st)"

definition on_close :: "nat \<Rightarrow> int \<Rightarrow> string \<Rightarrow> client \<Rightarrow> client" where
  "on_close k code reason st =
     (let st1 = clear_connection_timer k st;
          st2 = st1\<lparr>connectionStatus := Disconnected, isAuthenticated := False\<rparr>
      in attemptReconnect (emit (EvDisconnected code reason) st2))"

text \<open>The loop of \<open>disconnect\<close> over the entries of the map.\<close>

fun reject_all :: "(int \<times> nat) list \<Rightarrow> client \<Rightarrow> client" where
  "reject_all [] st = st"
| "reject_all ((requestId, h) # es) st =
     reject_all es
       (let st1 = settle h (Rejected ConnectionClosed) (clear_request_timer h st)
        in st1\<lparr>requestMap := map_delete requestId (requestMap st1)\<rparr>)"

text \<open>
  \<open>disconnect()\<close> closes the socket with code 1000 and forgets it. It removes no handler
  and sets no flag: the socket answers the \<open>close()\<close> with its \<open>close\<close> event, which runs
  \<open>on_close\<close> as for any other closure.
\<close>

definition disconnect :: "client \<Rightarrow> client" where
  "disconnect st =
     (let st1 = (case ws st of
                   None \<Rightarrow> st
                 | Some k \<Rightarrow>
                     let st' = reject_all (requestMap st) st
                     in st'\<lparr>closeCalls := closeCalls st' @ [k], ws := None\<rparr>)
      in st1\<lparr>isAuthenticated := False, connectionStatus := Disconnected\<rparr>)"

text \<open>Inbound frames handled one after the other, each with its clock reading.\<close>

fun handleMessages :: "(ws_data \<times> int \<times> bool) list \<Rightarrow> client \<Rightarrow> client" where
  "handleMessages [] st = st"
| "handleMessages ((d, now, sendOk) # fs) st = handleMessages fs (handleMessage d now sendOk st)"

text \<open>The correlation ids a frame carries, and a plain response frame.\<close>

fun frame_ids :: "ws_data \<Rightarrow> int list" where
  "frame_ids Unparseable = []"
| "frame_ids (Message res err) =
     (case res of None \<Rightarrow> [] | Some (i, m, r) \<Rightarrow> [i])
     @ (case err of None \<Rightarrow> [] | Some (i, c, m) \<Rightarrow> [i])"

definition response :: "int \<Rightarrow> string \<Rightarrow> string \<Rightarrow> ws_data" where
  "response requestId method payload =
     Message (Some (requestId, method,
       \<lparr>challengeMessage = None, success = False, jwtTokenField = None, body = payload\<rparr>)) None"

subsection \<open>Well-formed states and a concrete session\<close>

text \<open>
  Promise numbers are handed out from \<open>nextId\<close>, so those in use are below it. Every method
  and handler keeps this.
\<close>

definition wf_client :: "client \<Rightarrow> bool" where
  "wf_client st =
     (list_all (\<lambda>(i, h). h < nextId st) (requestMap st)
      \<and> list_all (\<lambda>(h, out). h < nextId st) (settled st))"

text \<open>Request \<open>requestId\<close> is pending with promise \<open>p\<close>, and \<open>p\<close> has no outcome yet.\<close>

definition pending :: "client \<Rightarrow> int \<Rightarrow> nat \<Rightarrow> bool" where
  "pending st requestId p =
     (map_get (requestMap st) requestId = Some p \<and> outcome_of st p = None
      \<and> list_all (\<lambda>(i, h). h = p \<longrightarrow> i = requestId) (requestMap st))"

definition handshake_method :: "string \<Rightarrow> bool" where
  "handshake_method m = (m = ''auth_challenge'' \<or> m = ''auth_verify'')"

text \<open>A frame that carries neither of two correlation ids.\<close>

definition unrelated :: "int \<Rightarrow> int \<Rightarrow> (ws_data \<times> int \<times> bool) \<Rightarrow> bool" where
  "unrelated i j f = (i \<notin> set (frame_ids (fst f)) \<and> j \<notin> set (frame_ids (fst f)))"

text \<open>
  Two \<open>request()\<close> calls made one after the other, before any answer comes: each with its
  method, its parameters and the two clock readings. The result is the state and the two
  promises.
\<close>

definition two_requests ::
  "client \<Rightarrow> string \<times> string \<times> int \<times> int \<Rightarrow> string \<times> string \<times> int \<times> int
   \<Rightarrow> client \<times> nat \<times> nat" where
  "two_requests st q1 q2 =
     (case q1 of (m1, a1, t1, f1) \<Rightarrow>
      case q2 of (m2, a2, t2, f2) \<Rightarrow>
      case sendRequest m1 a1 t1 f1 True st of (s1, p1) \<Rightarrow>
      case sendRequest m2 a2 t2 f2 True s1 of (s2, p2) \<Rightarrow> (s2, p1, p2))"

text \<open>
  The transport opens socket 0, the server sends a challenge and then accepts or refuses
  the \<open>auth_verify\<close>.
\<close>

definition client_ready :: client where
  "client_ready = initialize True new_client"

definition client_connecting :: client where
  "client_connecting = fst (connect client_ready)"

definition client_opened :: client where
  "client_opened = on_open 0 1700000000000 True client_connecting"

definition challenge_frame :: ws_data where
  "challenge_frame = Message (Some (1, ''auth_challenge'',
     \<lparr>challengeMessage = Some ''nonce'', success = False, jwtTokenField = None, body = []\<rparr>)) None"

definition verify_frame :: "bool \<Rightarrow> ws_data" where
  "verify_frame ok = Message (Some (2, ''auth_verify'',
     \<lparr>challengeMessage = None, success = ok,
      jwtTokenField = (if ok then Some ''jwt'' else None), body = []\<rparr>)) None"

definition client_challenged :: client where
  "client_challenged = handleMessage challenge_frame 1700000000100 True client_opened"

definition client_refused :: client where
  "client_refused = handleMessage (verify_frame False) 1700000000200 True client_challenged"

definition client_authenticated :: client where
  "client_authenticated = handleMessage (verify_frame True) 1700000000200 True client_challenged"

text \<open>One request is pending when the caller disconnects; the socket then reports its close.\<close>

definition client_requesting :: client where
  "client_requesting =
     fst (sendRequest ''get_channels'' ''[]'' 1700000001000 1700000001000 True
            client_authenticated)"

definition client_disconnected :: client where
  "client_disconnected = disconnect client_requesting"

definition client_after_disconnect :: client where
  "client_after_disconnect = on_close 0 1000 ''User initiated disconnect'' client_disconnected"

text \<open>Two requests issued within the same millisecond.\<close>

definition client_two_requests :: client where
  "client_two_requests =
     fst (sendRequest ''get_ledger_balances'' ''ch1'' 1700000001000 1700000001000 True
            client_requesting)"

definition client_first_answer :: client where
  "client_first_answer =
     handleMessage (response 1700000001000 ''get_channels'' ''channels'') 1700000001500 True
       client_two_requests"

definition client_second_answer :: client where
  "client_second_answer =
     handleMessage (response 1700000001000 ''get_ledger_balances'' ''balances'')
       1700000001600 True client_first_answer"

text \<open>
  Two requests whose keys differ while their frames carry the same id: the clock moves on
  between the two readings of the first call, and the second call follows within the
  millisecond. The server answers the first request.
\<close>

definition client_skewed :: client where
  "client_skewed =
     fst (two_requests client_authenticated
            (''get_channels'', ''[]'', 1700000001000, 1700000001001)
            (''get_ledger_balances'', ''ch1'', 1700000001001, 1700000001001))"

definition client_skewed_answer :: client where
  "client_skewed_answer =
     handleMessage (response 1700000001001 ''get_channels'' ''channels'') 1700000001500 True
       client_skewed"





section \<open>Properties of the deposit lifecycle\<close>

lemmas vault_defs = deposit_def sendToHub_def sendToHub_internal_def confirmDeposit_def
  receiveSettlement_def withdraw_def emergencyWithdraw_def setHubVault_def setMessenger_def
  setProtocolFee_def setFeeRecipient_def set_status_def

lemmas scenario_defs = vault_settled_def vault_confirmed_def vault_sent_def vault_pending_def
  vault_configured_def env_of_def commit_def constructor_def

lemma exec_forward:
  "exec e c v = Inr v' \<Longrightarrow> \<not> creates_record e c q
   \<Longrightarrow> forward (status (deposits v q)) (status (deposits v' q))"
  by (cases c)
     (auto simp: forward_def vault_defs Let_def
           split: if_splits option.splits sum.splits)

lemma exec_strict:
  "transition_of c = Some (p, src, dst) \<Longrightarrow> status (deposits v p) \<noteq> src
   \<Longrightarrow> exec e c v = Inl (if caller_admitted e c v then InvalidStatus else caller_error e c v)"
  by (cases c) (auto simp: vault_defs split: option.splits)

lemma exec_caller:
  "transition_of c = Some (p, src, dst) \<Longrightarrow> \<not> caller_admitted e c v
   \<Longrightarrow> exec e c v = Inl (caller_error e c v)"
  by (cases c) (auto simp: vault_defs split: option.splits)

lemma exec_source:
  "transition_of c = Some (p, src, dst) \<Longrightarrow> exec e c v = Inr v'
   \<Longrightarrow> caller_admitted e c v \<and> status (deposits v p) = src \<and> status (deposits v' p) = dst"
  by (cases c) (auto simp: vault_defs Let_def split: if_splits option.splits)

lemma commit_revert: "exec e c v = Inl err \<Longrightarrow> commit e c v = v"
  by (simp add: commit_def)

lemma exec_sent: "exec (env_of 1) (SendToHub 1) vault_pending = Inr vault_sent"
  by (simp add: scenario_defs vault_defs Let_def)

lemma exec_confirmed: "exec (env_of 1) (ConfirmDeposit 1 42) vault_sent = Inr vault_confirmed"
  by (simp add: scenario_defs vault_defs Let_def)

lemma exec_settled:
  "exec (env_of 1) (ReceiveSettlement 1 1000000 100000) vault_confirmed = Inr vault_settled"
  by (simp add: scenario_defs vault_defs Let_def)

lemma holder_confirmed: "nftOwner vault_confirmed 1 = Some (msg_sender (env_of 5))"
  by (simp add: scenario_defs vault_defs Let_def)

lemma stranger_confirmed:
  "msg_sender (env_of 8) \<noteq> messenger vault_confirmed
   \<and> msg_sender (env_of 8) \<noteq> owner vault_confirmed"
  by (simp add: scenario_defs vault_defs Let_def)

text \<open>
  Claim C6, as stated, fails where a transition is refused for another reason than the
  status, and where a record is written anew. On the PENDING deposit, \<open>confirmDeposit\<close> by
  an account that is neither messenger nor owner reverts with \<open>Not authorized\<close>, since the
  caller is checked first. On the WITHDRAWN deposit, a second \<open>withdraw\<close> reverts inside
  \<open>ownerOf\<close>, the position having been burnt. And when the owner has taken position 1
  to SETTLED before any deposit, the deposit that mints position 1 writes the record
  PENDING at that id.
\<close>

theorem lifecycle_refusals_and_rewrite:
  "status (deposits vault_pending 1) = Pending
   \<and> exec (env_of 8) (ConfirmDeposit 1 42) vault_pending = Inl NotAuthorized
   \<and> status (deposits vault_withdrawn 1) = Withdrawn
   \<and> exec (env_of 5) (Withdraw 1) vault_withdrawn = Inl ExternalCallReverted
   \<and> status (deposits vault_prefilled 1) = Settled
   \<and> status (deposits (commit (env_of 5) (Deposit 7 1000000) vault_prefilled) 1) = Pending"
  by (simp add: vault_withdrawn_def vault_prefilled_def scenario_defs vault_defs Let_def
      emptyDeposit_def)

text \<open>
  Claim C6, amended. Every successful call moves the status of every deposit along an
  edge of PENDING, SENT, CONFIRMED, SETTLED, WITHDRAWN or PENDING, WITHDRAWN, or leaves
  it where it is; the record that a deposit call writes at the minted id is left aside.
  Each of the five transitions checks its caller first and then compares the status with
  the one status it requires. Attempted from any other status it reverts, with
  \<open>InvalidStatus\<close> when the caller passes the caller check and with the error of that
  check otherwise, and the whole vault is as before; a caller that does not pass is
  refused in every status. When a transition succeeds, the caller passed, the deposit was
  in the required status and is in the target status afterwards.
\<close>

theorem lifecycle_transitions_checked:
  "(exec e c v = Inr v' \<and> \<not> creates_record e c q \<longrightarrow>
      forward (status (deposits v q)) (status (deposits v' q)))
   \<and> (transition_of c = Some (p, src, dst) \<and> status (deposits v p) \<noteq> src \<longrightarrow>
      exec e c v = Inl (if caller_admitted e c v then InvalidStatus else caller_error e c v)
      \<and> commit e c v = v)
   \<and> (transition_of c = Some (p, src, dst) \<and> \<not> caller_admitted e c v \<longrightarrow>
      exec e c v = Inl (caller_error e c v) \<and> commit e c v = v)
   \<and> (transition_of c = Some (p, src, dst) \<and> exec e c v = Inr v' \<longrightarrow>
      caller_admitted e c v \<and> status (deposits v p) = src \<and> status (deposits v' p) = dst)"
  using exec_forward [of e c v v' q] exec_strict [of c p src dst v e]
    exec_caller [of c p src dst e v] exec_source [of c p src dst e v v']
    commit_revert [of e c v]
  by metis

theorem lifecycle_transitions_checked_witness:
  "forward (status (deposits vault_pending 1)) (status (deposits vault_sent 1))
   \<and> (status (deposits vault_sent 1) = Sent \<and> status (deposits vault_confirmed 1) = Confirmed)
   \<and> (status (deposits vault_confirmed 1) = Confirmed
        \<and> status (deposits vault_settled 1) = Settled)
   \<and> (exec (env_of 5) (Withdraw 1) vault_confirmed = Inl InvalidStatus
        \<and> commit (env_of 5) (Withdraw 1) vault_confirmed = vault_confirmed)
   \<and> (exec (env_of 8) (ReceiveSettlement 1 5 5) vault_confirmed = Inl NotAuthorized
        \<and> commit (env_of 8) (ReceiveSettlement 1 5 5) vault_confirmed = vault_confirmed)"
proof -
  have nc: "\<not> creates_record (env_of 1) (SendToHub 1) 1"
    by simp
  have w1: "forward (status (deposits vault_pending 1)) (status (deposits vault_sent 1))"
    using lifecycle_transitions_checked [of "env_of 1" "SendToHub 1" vault_pending vault_sent 1 1 Pending Sent] exec_sent nc
    by blast
  have t2: "transition_of (ConfirmDeposit 1 42) = Some (1, Sent, Confirmed)"
    by simp
  have w2: "status (deposits vault_sent 1) = Sent \<and> status (deposits vault_confirmed 1) = Confirmed"
    using lifecycle_transitions_checked [of "env_of 1" "ConfirmDeposit 1 42" vault_sent vault_confirmed 1 1 Sent Confirmed]
      exec_confirmed t2
    by blast
  have t3: "transition_of (ReceiveSettlement 1 1000000 100000) = Some (1, Confirmed, Settled)"
    by simp
  have w3: "status (deposits vault_confirmed 1) = Confirmed
      \<and> status (deposits vault_settled 1) = Settled"
    using lifecycle_transitions_checked [of "env_of 1" "ReceiveSettlement 1 1000000 100000" vault_confirmed vault_settled
        1 1 Confirmed Settled] exec_settled t3
    by blast
  have t4: "transition_of (Withdraw 1) = Some (1, Settled, Withdrawn)"
    by simp
  have a4: "caller_admitted (env_of 5) (Withdraw 1) vault_confirmed"
    using holder_confirmed by simp
  have n4: "status (deposits vault_confirmed 1) \<noteq> Settled"
    using w3 by simp
  have "exec (env_of 5) (Withdraw 1) vault_confirmed
          = Inl (if caller_admitted (env_of 5) (Withdraw 1) vault_confirmed then InvalidStatus
                 else caller_error (env_of 5) (Withdraw 1) vault_confirmed)
        \<and> commit (env_of 5) (Withdraw 1) vault_confirmed = vault_confirmed"
    using lifecycle_transitions_checked [of "env_of 5" "Withdraw 1" vault_confirmed vault_settled 1 1 Settled Withdrawn] t4 n4
    by blast
  with a4 have w4: "exec (env_of 5) (Withdraw 1) vault_confirmed = Inl InvalidStatus
        \<and> commit (env_of 5) (Withdraw 1) vault_confirmed = vault_confirmed"
    by simp
  have t5: "transition_of (ReceiveSettlement 1 5 5) = Some (1, Confirmed, Settled)"
    by simp
  have a5: "\<not> caller_admitted (env_of 8) (ReceiveSettlement 1 5 5) vault_confirmed"
    using stranger_confirmed by simp
  have "exec (env_of 8) (ReceiveSettlement 1 5 5) vault_confirmed
          = Inl (caller_error (env_of 8) (ReceiveSettlement 1 5 5) vault_confirmed)
        \<and> commit (env_of 8) (ReceiveSettlement 1 5 5) vault_confirmed = vault_confirmed"
    using lifecycle_transitions_checked [of "env_of 8" "ReceiveSettlement 1 5 5" vault_confirmed vault_settled
        1 1 Confirmed Settled] t5 a5
    by blast
  then have w5: "exec (env_of 8) (ReceiveSettlement 1 5 5) vault_confirmed = Inl NotAuthorized
        \<and> commit (env_of 8) (ReceiveSettlement 1 5 5) vault_confirmed = vault_confirmed"
    by simp
  from w1 w2 w3 w4 w5 show ?thesis by blast
qed

text \<open>
  Claim C10. \<open>deposit\<close> reverts with \<open>InvalidToken\<close> when the token is the zero address
  and, the token being nonzero, with \<open>InvalidAmount\<close> when the amount is zero (the token
  is checked first); the vault, with its deposit records and the positions it knows, is
  then as before. A deposit that succeeds had a nonzero token and a positive amount; its
  record is written in PENDING at the minted position, and is SENT at the end of the call
  exactly when hub and messenger are configured, since the call then sends it on.
\<close>

theorem deposit_validates_token_and_amount:
  "(tok = 0 \<or> amt = 0 \<longrightarrow>
      deposit e tok amt v = Inl (if tok = 0 then InvalidToken else InvalidAmount)
      \<and> commit e (Deposit tok amt) v = v)
   \<and> (deposit e tok amt v = Inr (pid, v') \<longrightarrow>
      tok \<noteq> 0 \<and> 0 < amt \<and> mint_result e = Some pid
      \<and> nftOwner v' pid = Some (msg_sender e)
      \<and> deposits v' pid = \<lparr>positionId = pid, depositor = msg_sender e, token = tok,
            amount = amt, timestamp = block_timestamp e, hubPositionId = 0,
            status = (if hubVaultAddress v \<noteq> 0 \<and> messenger v \<noteq> 0 then Sent else Pending)\<rparr>)"
  by (auto simp: deposit_def commit_def sendToHub_internal_def set_status_def Let_def
      split: if_splits option.splits sum.splits)

lemma deposit_pending: "deposit (env_of 5) 7 1000000 vault_configured = Inr (1, vault_pending)"
  by (simp add: scenario_defs vault_defs Let_def)

theorem deposit_validates_token_and_amount_witness:
  "(deposit (env_of 5) 0 1000000 vault_configured = Inl InvalidToken
      \<and> commit (env_of 5) (Deposit 0 1000000) vault_configured = vault_configured)
   \<and> (deposit (env_of 5) 7 0 vault_configured = Inl InvalidAmount
      \<and> commit (env_of 5) (Deposit 7 0) vault_configured = vault_configured)
   \<and> status (deposits vault_pending 1) = Pending
   \<and> amount (deposits vault_pending 1) = 1000000
   \<and> nftOwner vault_pending 1 = Some 5"
proof -
  have w1: "deposit (env_of 5) 0 1000000 vault_configured = Inl InvalidToken
      \<and> commit (env_of 5) (Deposit 0 1000000) vault_configured = vault_configured"
    using deposit_validates_token_and_amount [of 0 1000000 "env_of 5" vault_configured]
    by simp
  have w2: "deposit (env_of 5) 7 0 vault_configured = Inl InvalidAmount
      \<and> commit (env_of 5) (Deposit 7 0) vault_configured = vault_configured"
    using deposit_validates_token_and_amount [of 7 0 "env_of 5" vault_configured]
    by simp
  have cfg: "hubVaultAddress vault_configured = 9 \<and> messenger vault_configured = 0"
    by (simp add: scenario_defs vault_defs)
  have sender: "msg_sender (env_of 5) = 5"
    by (simp add: env_of_def)
  have w3: "deposits vault_pending 1 = \<lparr>positionId = 1, depositor = msg_sender (env_of 5),
        token = 7, amount = 1000000, timestamp = block_timestamp (env_of 5), hubPositionId = 0,
        status = Pending\<rparr> \<and> nftOwner vault_pending 1 = Some 5"
    using deposit_validates_token_and_amount
      [of 7 1000000 "env_of 5" vault_configured 1 vault_pending] deposit_pending cfg sender
    by simp
  from w1 w2 w3 show ?thesis by simp
qed

text \<open>
  \<open>withdraw\<close> takes the principal from the amount of the deposit and the yield as the
  constant zero; what \<open>receiveSettlement\<close> was given is not stored anywhere. So a
  successful withdrawal always pays the deposited amount with fee zero.
\<close>

lemma withdraw_pays_deposit_amount:
  "withdraw e pid v = Inr ((payout, fee), v')
   \<Longrightarrow> payout = amount (deposits v pid) \<and> fee = 0 \<and> status (deposits v' pid) = Withdrawn"
  by (auto simp: withdraw_def set_status_def Let_def split: option.splits if_splits)

text \<open>
  Claim C1. The deposit of 1,000,000 above was settled with principal 1,000,000 and yield
  100,000, at a fee of 100 basis points. Its owner withdraws from the SETTLED deposit: the
  payout is 1,000,000 and the fee 0, where the fee formula on the settled yield gives
  1,000 and a payout of 1,099,000.
\<close>

theorem withdraw_ignores_settlement_yield:
  "protocolFeeBps vault_settled = 100
   \<and> status (deposits vault_settled 1) = Settled
   \<and> map_sum id fst (withdraw (env_of 5) 1 vault_settled) = Inr (1000000, 0)"
  by (simp add: scenario_defs vault_defs Let_def)

section \<open>Properties of the channel ledger\<close>

lemmas nitro_defs = createChannelForDeal_def updateChannelState_def finalizeChannel_def
  history_of_def history_versions_def current_version_def current_intent_def
  current_amounts_def db_after_def
  participant_at_def stateData_or_def empty_database_def

lemmas nitro_scenario = db_created_def db_finalized_def db_reopened_def

text \<open>
  \<open>updateChannelState\<close> writes the new version to the row and to the history alike, and
  \<open>createChannelForDeal\<close> does so with version 1.
\<close>

lemma update_appends_history:
  "updateChannelState db cid a0 a1 sd = Inr (r, db')
   \<Longrightarrow> \<exists>v. current_version db cid = Some v \<and> r = (cid, v + 1)
         \<and> current_version db' cid = Some (v + 1)
         \<and> history_versions db' cid = history_versions db cid @ [v + 1]"
  by (auto simp: nitro_defs Let_def split: option.splits)

lemma create_appends_history:
  "createChannelForDeal db (Some (sid, st)) deal dealer lp amt = Inr (r, db')
   \<Longrightarrow> current_version db' sid = Some 1
       \<and> history_versions db' sid = history_versions db sid @ [1]"
  by (auto simp: nitro_defs Let_def split: if_splits)

lemma finalize_appends_nothing:
  "finalizeChannel db cid a0 a1 = Inr (r, db')
   \<Longrightarrow> \<exists>v. current_version db cid = Some v \<and> current_version db' cid = Some (v + 1)
         \<and> stateHistory db' = stateHistory db"
  by (auto simp: nitro_defs Let_def split: option.splits)

text \<open>
  Claim C3. A channel is created and then finalized: the row is at version 2 and the
  history still ends at version 1, because \<open>finalizeChannel\<close> writes no history row. A
  later update is stored as version 3, so the history reads 1, 3 and version 2 is
  missing from it.
\<close>

theorem finalize_leaves_history_behind:
  "history_versions db_created ''ch1'' = [1] \<and> current_version db_created ''ch1'' = Some 1
   \<and> history_versions db_finalized ''ch1'' = [1]
   \<and> current_version db_finalized ''ch1'' = Some 2
   \<and> history_versions db_reopened ''ch1'' = [1, 3]
   \<and> current_version db_reopened ''ch1'' = Some 3"
  by (simp add: nitro_scenario nitro_defs Let_def)

text \<open>
  Claim C2, as stated, fails on the finalized channel above: \<open>updateChannelState\<close> returns
  normally with version 3, the intent is OPERATE again and the history has one more row.
\<close>

theorem operate_after_finalize_accepted:
  "current_intent db_finalized ''ch1'' = Some FINALIZE
   \<and> map_sum id fst (updateChannelState db_finalized ''ch1'' 300 700 None) = Inr (''ch1'', 3)
   \<and> current_intent db_reopened ''ch1'' = Some OPERATE
   \<and> current_version db_reopened ''ch1'' = Some 3
   \<and> length (history_of db_reopened ''ch1'') = length (history_of db_finalized ''ch1'') + 1"
  by (simp add: nitro_scenario nitro_defs Let_def)

text \<open>
  Claim C2, amended. On a session whose last transition set the intent FINALIZE, a further
  operate or finalize call is not refused: it is carried out as on any other session.
  \<open>updateChannelState\<close> returns the next version, sets the intent OPERATE, stores the new
  amounts and appends the history row of that version; \<open>finalizeChannel\<close> moves to the
  next version, sets the intent FINALIZE and stores the new amounts.
\<close>

theorem finalized_session_not_refused:
  "current_intent db cid = Some FINALIZE \<longrightarrow>
     (\<exists>v db'. current_version db cid = Some v
        \<and> updateChannelState db cid a0 a1 sd = Inr ((cid, v + 1), db')
        \<and> current_version db' cid = Some (v + 1)
        \<and> current_intent db' cid = Some OPERATE
        \<and> current_amounts db' cid = Some (a0, a1)
        \<and> history_versions db' cid = history_versions db cid @ [v + 1])
     \<and> (\<exists>v db'. current_version db cid = Some v
        \<and> finalizeChannel db cid a0 a1 = Inr ((cid, True), db')
        \<and> current_version db' cid = Some (v + 1)
        \<and> current_intent db' cid = Some FINALIZE
        \<and> current_amounts db' cid = Some (a0, a1))"
  by (auto simp: nitro_defs Let_def split: option.splits)

theorem finalized_session_not_refused_witness:
  "map_sum id fst (updateChannelState db_finalized ''ch1'' 300 700 None) = Inr (''ch1'', 3)
   \<and> map_sum id fst (finalizeChannel db_finalized ''ch1'' 300 700) = Inr (''ch1'', True)"
proof -
  have fin: "current_intent db_finalized ''ch1'' = Some FINALIZE"
    and ver: "current_version db_finalized ''ch1'' = Some 2"
    by (simp_all add: nitro_scenario nitro_defs Let_def)
  from finalized_session_not_refused [of db_finalized "''ch1''" 300 700 None] fin ver
  show ?thesis
    by auto
qed

section \<open>Properties of the protocol client\<close>

lemmas client_defs = initialize_def connect_def on_open_def startAuthentication_def
  handleMessage_def handleAuthChallenge_def handleAuthSuccess_def dispatch_response_def
  dispatch_error_def err_branch_def sendRequest_def on_request_timeout_def attemptReconnect_def
  on_reconnect_timer_def on_error_def on_close_def disconnect_def settle_def emit_def ws_send_def
  clear_request_timer_def clear_connection_timer_def map_get_def map_set_def map_delete_def
  outcome_of_def truthy_def new_client_def response_def on_connection_timeout_def
  maxReconnectAttempts_def reconnectInterval_def reconnectBackoffMultiplier_def

lemmas client_scenario = client_ready_def client_connecting_def client_opened_def
  challenge_frame_def verify_frame_def client_challenged_def client_refused_def
  client_authenticated_def client_requesting_def client_disconnected_def
  client_after_disconnect_def client_two_requests_def client_first_answer_def
  client_second_answer_def

subsection \<open>A pending request under frames that carry other ids\<close>

lemma pending_cong:
  "requestMap st' = requestMap st \<Longrightarrow> settled st' = settled st \<Longrightarrow> pending st' t p = pending st t p"
  by (simp add: pending_def outcome_of_def)

lemma map_of_delete_other: "i \<noteq> t \<Longrightarrow> map_of (map_delete i m) t = map_of m t"
  by (induction m) (auto simp: map_delete_def)

lemma list_all_delete: "list_all P m \<Longrightarrow> list_all P (map_delete i m)"
  by (simp add: map_delete_def list_all_iff)

lemma pending_handler_elsewhere:
  assumes "pending st t p" and "map_get (requestMap st) i = Some h" and "i \<noteq> t"
  shows "h \<noteq> p"
proof
  assume "h = p"
  from assms(2) have "(i, h) \<in> set (requestMap st)"
    by (simp add: map_get_def map_of_SomeD)
  with assms(1) \<open>h = p\<close> have "i = t"
    by (auto simp: pending_def list_all_iff)
  with assms(3) show False by simp
qed

lemma pending_settle_delete:
  assumes "pending st t p" and "h \<noteq> p" and "i \<noteq> t"
  shows "pending ((settle h out (clear_request_timer h st))
            \<lparr>requestMap := map_delete i (requestMap (settle h out (clear_request_timer h st)))\<rparr>) t p"
  using assms
  by (simp add: pending_def settle_def clear_request_timer_def outcome_of_def map_get_def
      map_of_delete_other list_all_delete)

lemma pending_dispatch_response:
  "pending st t p \<Longrightarrow> i \<noteq> t \<Longrightarrow> pending (dispatch_response i r st) t p"
  using pending_handler_elsewhere [of st t p i] pending_settle_delete [of st t p _ i]
  by (auto simp: dispatch_response_def Let_def split: option.splits)

lemma pending_emit: "pending (emit ev st) t p = pending st t p"
  by (rule pending_cong) (simp_all add: emit_def)

lemma pending_ws_send: "pending (ws_send f st) t p = pending st t p"
  by (rule pending_cong) (simp_all add: ws_send_def split: option.splits)

lemma pending_dispatch_error:
  "pending st t p \<Longrightarrow> i \<noteq> t \<Longrightarrow> pending (dispatch_error i c m st) t p"
  using pending_handler_elsewhere [of st t p i] pending_settle_delete [of st t p _ i]
  by (auto simp: dispatch_error_def Let_def pending_emit split: option.splits)

lemma pending_err_branch:
  "pending st t p \<Longrightarrow> t \<notin> set (case err of None \<Rightarrow> [] | Some (i, c, m) \<Rightarrow> [i])
   \<Longrightarrow> pending (err_branch err st) t p"
  by (auto simp: err_branch_def pending_dispatch_error split: option.splits)

lemma pending_auth_challenge:
  "pending (case handleAuthChallenge r now ok st of Inl e \<Rightarrow> st | Inr st1 \<Rightarrow> st1) t p
     = pending st t p"
  by (simp add: handleAuthChallenge_def pending_ws_send split: option.splits)

lemma pending_auth_success:
  "pending (case handleAuthSuccess r st of Inl e \<Rightarrow> st | Inr st1 \<Rightarrow> st1) t p = pending st t p"
  by (simp add: handleAuthSuccess_def pending_def outcome_of_def emit_def)

lemma pending_handleMessage:
  assumes "pending st t p" and "t \<notin> set (frame_ids d)"
  shows "pending (handleMessage d now ok st) t p"
proof (cases d)
  case Unparseable
  with assms show ?thesis by (simp add: handleMessage_def)
next
  case (Message res err)
  show ?thesis
  proof (cases res)
    case None
    with Message assms show ?thesis
      by (simp add: handleMessage_def pending_err_branch)
  next
    case (Some triple)
    obtain i m r where triple: "triple = (i, m, r)" by (cases triple)
    from assms(2) Message Some triple have it: "i \<noteq> t"
      and terr: "t \<notin> set (case err of None \<Rightarrow> [] | Some (i, c, m) \<Rightarrow> [i])"
      by auto
    show ?thesis
    proof (cases "m = ''auth_challenge''")
      case True
      with Message Some triple assms(1) show ?thesis
        by (simp add: handleMessage_def pending_auth_challenge)
    next
      case nc: False
      show ?thesis
      proof (cases "m = ''auth_verify''")
        case True
        with nc Message Some triple assms(1) show ?thesis
          by (simp add: handleMessage_def pending_auth_success)
      next
        case False
        from assms(1) it have "pending (emit (EvMessage d) (dispatch_response i r st)) t p"
          by (simp add: pending_emit pending_dispatch_response)
        with terr have "pending (err_branch err (emit (EvMessage d) (dispatch_response i r st))) t p"
          by (simp add: pending_err_branch)
        with nc False Message Some triple show ?thesis
          by (simp add: handleMessage_def)
      qed
    qed
  qed
qed

subsection \<open>A promise keeps the first outcome it is given\<close>

lemma outcome_settle_other:
  "outcome_of st p = Some out \<Longrightarrow> outcome_of (settle h out' st) p = Some out"
  by (simp add: outcome_of_def settle_def)

lemma outcome_cong: "settled st' = settled st \<Longrightarrow> outcome_of st' p = outcome_of st p"
  by (simp add: outcome_of_def)

lemma outcome_dispatch_response:
  "outcome_of st p = Some out \<Longrightarrow> outcome_of (dispatch_response i r st) p = Some out"
  by (auto simp: dispatch_response_def outcome_of_def settle_def clear_request_timer_def Let_def
      split: option.splits)

lemma outcome_dispatch_error:
  "outcome_of st p = Some out \<Longrightarrow> outcome_of (dispatch_error i c m st) p = Some out"
  by (auto simp: dispatch_error_def outcome_of_def settle_def clear_request_timer_def emit_def
      Let_def split: option.splits)

lemma outcome_err_branch:
  "outcome_of st p = Some out \<Longrightarrow> outcome_of (err_branch err st) p = Some out"
  by (auto simp: err_branch_def outcome_dispatch_error split: option.splits)

lemma outcome_emit: "outcome_of (emit ev st) p = outcome_of st p"
  by (simp add: outcome_of_def emit_def)

lemma outcome_auth_challenge:
  "outcome_of (case handleAuthChallenge r now ok st of Inl e \<Rightarrow> st | Inr st1 \<Rightarrow> st1) p
     = outcome_of st p"
  by (simp add: handleAuthChallenge_def ws_send_def outcome_of_def split: option.splits)

lemma outcome_auth_success:
  "outcome_of (case handleAuthSuccess r st of Inl e \<Rightarrow> st | Inr st1 \<Rightarrow> st1) p = outcome_of st p"
  by (simp add: handleAuthSuccess_def emit_def outcome_of_def)

lemma handleMessage_plain:
  "\<not> handshake_method m \<Longrightarrow>
   handleMessage (Message (Some (i, m, r)) err) now ok st
     = err_branch err (emit (EvMessage (Message (Some (i, m, r)) err)) (dispatch_response i r st))"
  by (simp add: handleMessage_def handshake_method_def)

lemma handleMessage_challenge:
  "handleMessage (Message (Some (i, ''auth_challenge'', r)) err) now ok st
     = (case handleAuthChallenge r now ok st of Inl e \<Rightarrow> st | Inr st1 \<Rightarrow> st1)"
  by (simp add: handleMessage_def)

lemma handleMessage_verify:
  "handleMessage (Message (Some (i, ''auth_verify'', r)) err) now ok st
     = (case handleAuthSuccess r st of Inl e \<Rightarrow> st | Inr st1 \<Rightarrow> st1)"
  by (simp add: handleMessage_def)

lemma handleMessage_no_res: "handleMessage (Message None err) now ok st = err_branch err st"
  by (simp add: handleMessage_def)

lemma outcome_handleMessage:
  assumes "outcome_of st p = Some out"
  shows "outcome_of (handleMessage d now ok st) p = Some out"
proof (cases d)
  case Unparseable
  with assms show ?thesis by (simp add: handleMessage_def)
next
  case (Message res err)
  show ?thesis
  proof (cases res)
    case None
    with Message assms show ?thesis
      by (simp add: handleMessage_no_res outcome_err_branch)
  next
    case (Some triple)
    obtain i m r where triple: "triple = (i, m, r)" by (cases triple)
    consider "m = ''auth_challenge''" | "m = ''auth_verify''" | "\<not> handshake_method m"
      by (auto simp: handshake_method_def)
    then show ?thesis
    proof cases
      case 1
      with Message Some triple assms show ?thesis
        by (simp add: handleMessage_challenge outcome_auth_challenge)
    next
      case 2
      with Message Some triple assms show ?thesis
        by (simp add: handleMessage_verify outcome_auth_success)
    next
      case 3
      with Message Some triple assms show ?thesis
        by (simp add: handleMessage_plain outcome_err_branch outcome_emit
            outcome_dispatch_response)
    qed
  qed
qed

lemma outcome_handleMessages:
  "outcome_of st p = Some out \<Longrightarrow> outcome_of (handleMessages fs st) p = Some out"
proof (induction fs arbitrary: st)
  case Nil
  then show ?case by simp
next
  case (Cons f fs)
  obtain d now ok where f: "f = (d, now, ok)" by (cases f)
  from Cons.prems have "outcome_of (handleMessage d now ok st) p = Some out"
    by (rule outcome_handleMessage)
  then have "outcome_of (handleMessages fs (handleMessage d now ok st)) p = Some out"
    by (rule Cons.IH)
  with f show ?case by simp
qed

lemma pending_handleMessages:
  "pending st t p \<Longrightarrow> list_all (\<lambda>f. t \<notin> set (frame_ids (fst f))) fs
   \<Longrightarrow> pending (handleMessages fs st) t p"
proof (induction fs arbitrary: st)
  case Nil
  then show ?case by simp
next
  case (Cons f fs)
  obtain d now ok where f: "f = (d, now, ok)" by (cases f)
  from Cons.prems f have here: "t \<notin> set (frame_ids d)"
    and rest: "list_all (\<lambda>f. t \<notin> set (frame_ids (fst f))) fs"
    by simp_all
  from Cons.prems(1) here have "pending (handleMessage d now ok st) t p"
    by (rule pending_handleMessage)
  then have "pending (handleMessages fs (handleMessage d now ok st)) t p"
    using rest by (rule Cons.IH)
  with f show ?case by simp
qed

lemma response_resolves:
  assumes "pending st t p" and "\<not> handshake_method m"
  shows "outcome_of (handleMessage (Message (Some (t, m, r)) err) now ok st) p = Some (Resolved r)"
proof -
  from assms(1) have "outcome_of (dispatch_response t r st) p = Some (Resolved r)"
    by (simp add: pending_def dispatch_response_def outcome_of_def settle_def
        clear_request_timer_def Let_def map_add_def)
  then have "outcome_of (err_branch err (emit (EvMessage (Message (Some (t, m, r)) err))
      (dispatch_response t r st))) p = Some (Resolved r)"
    by (simp add: outcome_err_branch outcome_emit)
  with assms(2) show ?thesis
    by (simp add: handleMessage_def handshake_method_def)
qed

subsection \<open>Registering a request\<close>

lemma map_of_replace:
  "map_of (map (\<lambda>(k', v'). if k' = t then (t, p) else (k', v')) m) t'
     = (if t' = t then (if map_of m t = None then None else Some p) else map_of m t')"
  by (induction m) auto

lemma map_of_map_set_same: "map_of (map_set t p m) t = Some p"
proof (cases "t \<in> fst ` set m")
  case True
  then show ?thesis
    by (simp add: map_set_def map_of_replace map_of_eq_None_iff)
next
  case False
  then have "map_of m t = None"
    by (simp add: map_of_eq_None_iff)
  with False show ?thesis
    by (simp add: map_set_def map_add_def)
qed

lemma map_of_map_set_other: "t' \<noteq> t \<Longrightarrow> map_of (map_set t p m) t' = map_of m t'"
  by (auto simp: map_set_def map_of_replace map_add_def split: option.splits)

lemma list_all_map_set:
  "list_all P m \<Longrightarrow> P (t, p) \<Longrightarrow> list_all P (map_set t p m)"
  by (auto simp: map_set_def list_all_iff)

lemma map_of_bound:
  "list_all (\<lambda>(h, out). h < n) xs \<Longrightarrow> map_of xs (n::nat) = None"
  by (induction xs) auto

lemma sendRequest_ok:
  assumes "isAuthenticated st" and "initialized st"
  shows "sendRequest m a t tf True st
    = (ws_send \<lparr>frame_id = tf, frame_method = m, frame_params = RequestParams a\<rparr>
        (st\<lparr>nextId := nextId st + 1,
            reqTimers := reqTimers st @ [(nextId st, t, m)],
            requestMap := map_set t (nextId st) (requestMap st)\<rparr>), nextId st)"
  using assms by (simp add: sendRequest_def Let_def)

lemma sendRequest_pending:
  assumes "wf_client st" and "isAuthenticated st" and "initialized st"
  shows "pending (fst (sendRequest m a t tf True st)) t (nextId st)"
proof -
  from assms(1) have none: "map_of (settled st) (nextId st) = None"
    by (simp add: wf_client_def map_of_bound)
  from assms(1) have "list_all (\<lambda>(i, h). h = nextId st \<longrightarrow> i = t) (requestMap st)"
    by (auto simp: wf_client_def list_all_iff)
  then have "list_all (\<lambda>(i, h). h = nextId st \<longrightarrow> i = t) (map_set t (nextId st) (requestMap st))"
    by (rule list_all_map_set) simp
  with none show ?thesis
    by (simp add: sendRequest_ok assms pending_ws_send)
       (simp add: pending_def map_get_def outcome_of_def map_of_map_set_same)
qed

lemma sendRequest_keeps:
  assumes "isAuthenticated st" and "initialized st"
  shows "snd (sendRequest m a t tf True st) = nextId st"
    and "nextId (fst (sendRequest m a t tf True st)) = nextId st + 1"
    and "isAuthenticated (fst (sendRequest m a t tf True st))"
    and "initialized (fst (sendRequest m a t tf True st))"
  using assms by (simp_all add: sendRequest_ok ws_send_def split: option.splits)

lemma sendRequest_wf:
  assumes "wf_client st" and "isAuthenticated st" and "initialized st"
  shows "wf_client (fst (sendRequest m a t tf True st))"
proof -
  from assms(1) have "list_all (\<lambda>(i, h). h < nextId st + 1) (requestMap st)"
    and s: "list_all (\<lambda>(h, out). h < nextId st + 1) (settled st)"
    by (auto simp: wf_client_def list_all_iff)
  then have "list_all (\<lambda>(i, h). h < nextId st + 1) (map_set t (nextId st) (requestMap st))"
    by (intro list_all_map_set) simp_all
  with s show ?thesis
    by (simp add: sendRequest_ok assms wf_client_def ws_send_def split: option.splits)
qed

lemma sendRequest_pending_other:
  assumes "pending st t p" and "p < nextId st" and "t' \<noteq> t"
    and "isAuthenticated st" and "initialized st"
  shows "pending (fst (sendRequest m a t' tf True st)) t p"
proof -
  from assms(1) have "list_all (\<lambda>(i, h). h = p \<longrightarrow> i = t) (requestMap st)"
    by (simp add: pending_def)
  then have "list_all (\<lambda>(i, h). h = p \<longrightarrow> i = t) (map_set t' (nextId st) (requestMap st))"
    using assms(2) by (intro list_all_map_set) simp_all
  with assms show ?thesis
    by (simp add: sendRequest_ok pending_ws_send)
       (simp add: pending_def map_get_def outcome_of_def map_of_map_set_other)
qed

subsection \<open>Two requests at a time\<close>

lemma unrelated_fst:
  "list_all (unrelated i j) fs \<Longrightarrow> list_all (\<lambda>f. i \<notin> set (frame_ids (fst f))) fs"
  by (simp add: list_all_iff unrelated_def)

lemma unrelated_snd:
  "list_all (unrelated i j) fs \<Longrightarrow> list_all (\<lambda>f. j \<notin> set (frame_ids (fst f))) fs"
  by (simp add: list_all_iff unrelated_def)

lemma two_pending_resolve:
  assumes pa: "pending s ta pa" and pb: "pending s tb pb" and ne: "ta \<noteq> tb"
    and fs: "list_all (unrelated ta tb) fs" and gs: "list_all (unrelated ta tb) gs"
    and ma: "\<not> handshake_method ma" and mb: "\<not> handshake_method mb"
  shows "outcome_of (handleMessage (Message (Some (tb, mb, rb)) None) nb okb
            (handleMessages gs (handleMessage (Message (Some (ta, ma, ra)) None) na oka
              (handleMessages fs s)))) pa = Some (Resolved ra)
       \<and> outcome_of (handleMessage (Message (Some (tb, mb, rb)) None) nb okb
            (handleMessages gs (handleMessage (Message (Some (ta, ma, ra)) None) na oka
              (handleMessages fs s)))) pb = Some (Resolved rb)"
proof -
  let ?s1 = "handleMessages fs s"
  let ?s2 = "handleMessage (Message (Some (ta, ma, ra)) None) na oka ?s1"
  let ?s3 = "handleMessages gs ?s2"
  let ?s4 = "handleMessage (Message (Some (tb, mb, rb)) None) nb okb ?s3"
  from pa fs have a1: "pending ?s1 ta pa"
    by (simp add: pending_handleMessages unrelated_fst)
  from pb fs have b1: "pending ?s1 tb pb"
    by (simp add: pending_handleMessages unrelated_snd)
  from a1 ma have a2: "outcome_of ?s2 pa = Some (Resolved ra)"
    by (rule response_resolves)
  from ne have "tb \<notin> set (frame_ids (Message (Some (ta, ma, ra)) None))"
    by simp
  with b1 have b2: "pending ?s2 tb pb"
    by (rule pending_handleMessage)
  from a2 have a3: "outcome_of ?s3 pa = Some (Resolved ra)"
    by (rule outcome_handleMessages)
  from b2 gs have b3: "pending ?s3 tb pb"
    by (simp add: pending_handleMessages unrelated_snd)
  from a3 have a4: "outcome_of ?s4 pa = Some (Resolved ra)"
    by (rule outcome_handleMessage)
  from b3 mb have b4: "outcome_of ?s4 pb = Some (Resolved rb)"
    by (rule response_resolves)
  from a4 b4 show ?thesis by simp
qed

lemma unrelated_sym: "unrelated i j = unrelated j i"
  by (auto simp: unrelated_def fun_eq_iff)

lemma two_requests_pending:
  assumes wf: "wf_client st" and au: "isAuthenticated st" and ini: "initialized st"
    and ne: "t1 \<noteq> t2"
    and two: "two_requests st (m1, a1, t1, f1) (m2, a2, t2, f2) = (s2, p1, p2)"
  shows "pending s2 t1 p1 \<and> pending s2 t2 p2 \<and> p1 \<noteq> p2"
proof -
  let ?s1 = "fst (sendRequest m1 a1 t1 f1 True st)"
  from two have s2: "s2 = fst (sendRequest m2 a2 t2 f2 True ?s1)"
    and p1: "p1 = snd (sendRequest m1 a1 t1 f1 True st)"
    and p2: "p2 = snd (sendRequest m2 a2 t2 f2 True ?s1)"
    by (auto simp: two_requests_def split: prod.splits)
  from au ini have k1: "snd (sendRequest m1 a1 t1 f1 True st) = nextId st"
    and n1: "nextId ?s1 = nextId st + 1"
    and au1: "isAuthenticated ?s1" and ini1: "initialized ?s1"
    by (rule sendRequest_keeps)+
  from wf au ini have wf1: "wf_client ?s1"
    by (rule sendRequest_wf)
  from wf au ini have pe1: "pending ?s1 t1 (nextId st)"
    by (rule sendRequest_pending)
  from au1 ini1 have k2: "snd (sendRequest m2 a2 t2 f2 True ?s1) = nextId ?s1"
    by (rule sendRequest_keeps)
  from wf1 au1 ini1 have pe2: "pending s2 t2 (nextId ?s1)"
    unfolding s2 by (rule sendRequest_pending)
  from n1 have lt: "nextId st < nextId ?s1" by simp
  from ne have ne': "t2 \<noteq> t1" by simp
  from pe1 lt ne' au1 ini1 have pe1': "pending s2 t1 (nextId st)"
    unfolding s2 by (rule sendRequest_pending_other)
  from pe1' pe2 p1 p2 k1 k2 n1 show ?thesis by simp
qed

subsection \<open>The concrete session\<close>

lemma authenticated_state:
  "client_authenticated = \<lparr>ws = Some 0, initialized = True, connectionStatus = Authenticated,
     isAuthenticated = True, jwtToken = Some ''jwt'', reconnectAttempts = 0, requestMap = [],
     nextId = 1, settled = [(0, ResolvedVoid)],
     emitted = [EvConnecting, EvConnected, EvAuthenticated (Some ''jwt'')],
     sent = [\<lparr>frame_id = 1700000000000, frame_method = ''auth_request'',
               frame_params = AuthRequestParams\<rparr>,
             \<lparr>frame_id = 1700000000100, frame_method = ''auth_verify'',
               frame_params = AuthVerifyParams ''nonce''\<rparr>],
     closeCalls = [], connTimers = [], reqTimers = [], reconnectTimers = []\<rparr>"
  by (simp add: client_scenario client_defs Let_def)

subsection \<open>Correlation of concurrent requests\<close>

text \<open>
  A request is found by the key of its entry, whatever the frame it sent carried.
\<close>

lemma distinct_keys_resolve:
  assumes "wf_client st" and "isAuthenticated st" and "initialized st"
    and "t1 \<noteq> t2"
    and "two_requests st (m1, a1, t1, f1) (m2, a2, t2, f2) = (s2, p1, p2)"
    and "list_all (unrelated t1 t2) fs" and "list_all (unrelated t1 t2) gs"
    and "\<not> handshake_method rm1" and "\<not> handshake_method rm2"
  shows "p1 \<noteq> p2
    \<and> outcome_of (handleMessage (Message (Some (t2, rm2, r2)) None) n2 ok2
         (handleMessages gs (handleMessage (Message (Some (t1, rm1, r1)) None) n1 ok1
           (handleMessages fs s2)))) p1 = Some (Resolved r1)
    \<and> outcome_of (handleMessage (Message (Some (t2, rm2, r2)) None) n2 ok2
         (handleMessages gs (handleMessage (Message (Some (t1, rm1, r1)) None) n1 ok1
           (handleMessages fs s2)))) p2 = Some (Resolved r2)
    \<and> outcome_of (handleMessage (Message (Some (t1, rm1, r1)) None) n1 ok1
         (handleMessages gs (handleMessage (Message (Some (t2, rm2, r2)) None) n2 ok2
           (handleMessages fs s2)))) p1 = Some (Resolved r1)
    \<and> outcome_of (handleMessage (Message (Some (t1, rm1, r1)) None) n1 ok1
         (handleMessages gs (handleMessage (Message (Some (t2, rm2, r2)) None) n2 ok2
           (handleMessages fs s2)))) p2 = Some (Resolved r2)"
proof -
  from assms(1-5) have pe: "pending s2 t1 p1" "pending s2 t2 p2" "p1 \<noteq> p2"
    using two_requests_pending by blast+
  from assms(4) have ne': "t2 \<noteq> t1" by simp
  from assms(6,7) have fs': "list_all (unrelated t2 t1) fs" and gs': "list_all (unrelated t2 t1) gs"
    by (simp_all add: unrelated_sym)
  note first = two_pending_resolve [OF pe(1) pe(2) assms(4) assms(6,7) assms(8,9),
      of r2 n2 ok2 r1 n1 ok1]
  note second = two_pending_resolve [OF pe(2) pe(1) ne' fs' gs' assms(9,8),
      of r1 n1 ok1 r2 n2 ok2]
  from pe(3) first second show ?thesis by simp
qed

lemma two_requests_sent:
  assumes au: "isAuthenticated st" and ini: "initialized st" and ws: "ws st = Some k"
    and two: "two_requests st (m1, a1, t1, f1) (m2, a2, t2, f2) = (s2, p1, p2)"
  shows "sent s2 = sent st
           @ [\<lparr>frame_id = f1, frame_method = m1, frame_params = RequestParams a1\<rparr>,
              \<lparr>frame_id = f2, frame_method = m2, frame_params = RequestParams a2\<rparr>]"
proof -
  let ?s1 = "fst (sendRequest m1 a1 t1 f1 True st)"
  from two have s2: "s2 = fst (sendRequest m2 a2 t2 f2 True ?s1)"
    by (auto simp: two_requests_def split: prod.splits)
  from au ini have au1: "isAuthenticated ?s1" and ini1: "initialized ?s1"
    by (rule sendRequest_keeps)+
  from au ini ws have one: "ws ?s1 = Some k"
    "sent ?s1 = sent st
       @ [\<lparr>frame_id = f1, frame_method = m1, frame_params = RequestParams a1\<rparr>]"
    by (simp_all add: sendRequest_ok ws_send_def)
  from au1 ini1 one show ?thesis
    unfolding s2 by (simp add: sendRequest_ok [of ?s1] ws_send_def)
qed

text \<open>
  Claim C7, as stated, fails when two requests are issued within one millisecond. The
  key of a pending entry is the reading of \<open>Date.now()\<close>, so both get the key
  1700000001000 and the second entry replaces the first in the map. The answer to the
  first request (\<open>get_channels\<close>) then resolves the promise of the second
  (\<open>get_ledger_balances\<close>), the answer to the second finds no entry, and the promise of
  the first gets no result.

  It fails as well when the keys differ and the frames do not. The id in the frame is a
  second reading of the clock, taken in \<open>createSignedRequest\<close>. In \<open>client_skewed\<close> the
  first call has the key 1700000001000 and sends the id 1700000001001, which is both key
  and id of the second call. The server answers the first request under the id it
  received, and the answer resolves the promise of the second.
\<close>

theorem same_millisecond_requests_collide:
  "requestMap client_requesting = [(1700000001000, 1)]
   \<and> requestMap client_two_requests = [(1700000001000, 2)]
   \<and> map_option body
       (case outcome_of client_second_answer 2 of Some (Resolved r) \<Rightarrow> Some r | _ \<Rightarrow> None)
       = Some ''channels''
   \<and> outcome_of client_second_answer 1 = None
   \<and> requestMap client_skewed = [(1700000001000, 1), (1700000001001, 2)]
   \<and> map frame_id (drop 2 (sent client_skewed)) = [1700000001001, 1700000001001]
   \<and> map frame_method (drop 2 (sent client_skewed)) = [''get_channels'', ''get_ledger_balances'']
   \<and> map_option body
       (case outcome_of client_skewed_answer 2 of Some (Resolved r) \<Rightarrow> Some r | _ \<Rightarrow> None)
       = Some ''channels''
   \<and> outcome_of client_skewed_answer 1 = None"
  by (simp add: client_scenario client_skewed_def client_skewed_answer_def two_requests_def
      authenticated_state client_defs Let_def)

text \<open>
  Claim C7, amended. A \<open>request()\<close> call reads the clock twice: once for the key under
  which its promise is registered, and once for the id in the frame it sends. Take two
  calls made one after the other on an authenticated client that holds a socket, such
  that for each call the two readings agree, and such that the ids of the two calls
  differ. Then the two frames sent carry these ids, and each promise resolves with the
  result of the response frame that carries the id of its own frame, never with the
  other's, in whichever order the two responses arrive and whatever frames carrying
  neither id are delivered before or between them. (A response counts when its method is
  not one of the two handshake methods, which are never correlated.)
\<close>

theorem echoed_ids_never_swapped:
  assumes "wf_client st" and "isAuthenticated st" and "initialized st" and "ws st = Some k"
    and "two_requests st (m1, a1, t1, f1) (m2, a2, t2, f2) = (s2, p1, p2)"
    and "f1 = t1" and "f2 = t2" and "f1 \<noteq> f2"
    and "list_all (unrelated f1 f2) fs" and "list_all (unrelated f1 f2) gs"
    and "\<not> handshake_method rm1" and "\<not> handshake_method rm2"
  shows "sent s2 = sent st
           @ [\<lparr>frame_id = f1, frame_method = m1, frame_params = RequestParams a1\<rparr>,
              \<lparr>frame_id = f2, frame_method = m2, frame_params = RequestParams a2\<rparr>]
    \<and> p1 \<noteq> p2
    \<and> outcome_of (handleMessage (Message (Some (f2, rm2, r2)) None) n2 ok2
         (handleMessages gs (handleMessage (Message (Some (f1, rm1, r1)) None) n1 ok1
           (handleMessages fs s2)))) p1 = Some (Resolved r1)
    \<and> outcome_of (handleMessage (Message (Some (f2, rm2, r2)) None) n2 ok2
         (handleMessages gs (handleMessage (Message (Some (f1, rm1, r1)) None) n1 ok1
           (handleMessages fs s2)))) p2 = Some (Resolved r2)
    \<and> outcome_of (handleMessage (Message (Some (f1, rm1, r1)) None) n1 ok1
         (handleMessages gs (handleMessage (Message (Some (f2, rm2, r2)) None) n2 ok2
           (handleMessages fs s2)))) p1 = Some (Resolved r1)
    \<and> outcome_of (handleMessage (Message (Some (f1, rm1, r1)) None) n1 ok1
         (handleMessages gs (handleMessage (Message (Some (f2, rm2, r2)) None) n2 ok2
           (handleMessages fs s2)))) p2 = Some (Resolved r2)"
proof -
  from assms(6,7,8) have ne: "t1 \<noteq> t2"
    by simp
  from assms(6,7,9,10) have fs: "list_all (unrelated t1 t2) fs"
    and gs: "list_all (unrelated t1 t2) gs"
    by simp_all
  note keys = distinct_keys_resolve [OF assms(1,2,3) ne assms(5) fs gs assms(11,12),
      of r2 n2 ok2 r1 n1 ok1]
  note frames = two_requests_sent [OF assms(2,3,4,5)]
  from keys frames assms(6,7) show ?thesis
    by simp
qed

theorem echoed_ids_never_swapped_witness:
  "outcome_of
     (handleMessage (response 1700000001001 ''get_ledger_balances'' ''balances'') 3 True
       (handleMessages []
         (handleMessage (response 1700000001000 ''get_channels'' ''channels'') 2 True
           (handleMessages [(response 5 ''other'' ''x'', 1, True)]
             (fst (two_requests client_authenticated
                (''get_channels'', ''[]'', 1700000001000, 1700000001000)
                (''get_ledger_balances'', ''ch1'', 1700000001001, 1700000001001)))))))
     1
   = Some (Resolved \<lparr>challengeMessage = None, success = False, jwtTokenField = None,
                      body = ''channels''\<rparr>)
   \<and> outcome_of
     (handleMessage (response 1700000001001 ''get_ledger_balances'' ''balances'') 3 True
       (handleMessages []
         (handleMessage (response 1700000001000 ''get_channels'' ''channels'') 2 True
           (handleMessages [(response 5 ''other'' ''x'', 1, True)]
             (fst (two_requests client_authenticated
                (''get_channels'', ''[]'', 1700000001000, 1700000001000)
                (''get_ledger_balances'', ''ch1'', 1700000001001, 1700000001001)))))))
     2
   = Some (Resolved \<lparr>challengeMessage = None, success = False, jwtTokenField = None,
                      body = ''balances''\<rparr>)"
proof -
  have wf: "wf_client client_authenticated"
    by (simp add: authenticated_state wf_client_def)
  have au: "isAuthenticated client_authenticated" and ini: "initialized client_authenticated"
    by (simp_all add: authenticated_state)
  have ne: "(1700000001000::int) \<noteq> 1700000001001" by simp
  have two: "two_requests client_authenticated
                (''get_channels'', ''[]'', 1700000001000, 1700000001000)
                (''get_ledger_balances'', ''ch1'', 1700000001001, 1700000001001)
      = (fst (two_requests client_authenticated
                (''get_channels'', ''[]'', 1700000001000, 1700000001000)
                (''get_ledger_balances'', ''ch1'', 1700000001001, 1700000001001)), 1, 2)"
    by (simp add: two_requests_def authenticated_state sendRequest_def Let_def ws_send_def)
  have fs: "list_all (unrelated 1700000001000 1700000001001) [(response 5 ''other'' ''x'', 1, True)]"
    by (simp add: unrelated_def response_def)
  have gs: "list_all (unrelated 1700000001000 1700000001001) []"
    by simp
  have m1: "\<not> handshake_method ''get_channels''" and m2: "\<not> handshake_method ''get_ledger_balances''"
    by (simp_all add: handshake_method_def)
  have sock: "ws client_authenticated = Some 0"
    by (simp add: authenticated_state)
  from echoed_ids_never_swapped [OF wf au ini sock two refl refl ne fs gs m1 m2] show ?thesis
    unfolding response_def by blast
qed

subsection \<open>Disconnecting\<close>

lemma reject_all_requestMap:
  "requestMap (reject_all es st) = filter (\<lambda>(i, h). i \<notin> fst ` set es) (requestMap st)"
proof (induction es arbitrary: st)
  case Nil
  then show ?case by simp
next
  case (Cons e es)
  obtain i h where e: "e = (i, h)" by (cases e)
  show ?case
    by (simp add: e Cons.IH settle_def clear_request_timer_def map_delete_def Let_def)
       (rule filter_cong, auto)
qed

lemma reject_all_settled:
  "settled (reject_all es st) = settled st @ map (\<lambda>(i, h). (h, Rejected ConnectionClosed)) es"
proof (induction es arbitrary: st)
  case Nil
  then show ?case by simp
next
  case (Cons e es)
  obtain i h where e: "e = (i, h)" by (cases e)
  show ?case
    by (simp add: e Cons.IH settle_def clear_request_timer_def Let_def)
qed

lemma reject_all_rest:
  "reconnectAttempts (reject_all es st) = reconnectAttempts st
   \<and> reconnectTimers (reject_all es st) = reconnectTimers st
   \<and> closeCalls (reject_all es st) = closeCalls st
   \<and> emitted (reject_all es st) = emitted st
   \<and> nextId (reject_all es st) = nextId st"
proof (induction es arbitrary: st)
  case Nil
  then show ?case by simp
next
  case (Cons e es)
  obtain i h where e: "e = (i, h)" by (cases e)
  show ?case
    by (simp add: e Cons.IH settle_def clear_request_timer_def Let_def)
qed

lemma map_of_all_rejected:
  "(i, h) \<in> set es \<Longrightarrow> map_of (map (\<lambda>(i, h). (h, Rejected ConnectionClosed)) es) h
     = Some (Rejected ConnectionClosed)"
  by (induction es) auto

lemma disconnect_open:
  assumes "ws st = Some k"
  shows "requestMap (disconnect st) = []"
    and "settled (disconnect st)
           = settled st @ map (\<lambda>(i, h). (h, Rejected ConnectionClosed)) (requestMap st)"
    and "closeCalls (disconnect st) = closeCalls st @ [k]"
    and "reconnectAttempts (disconnect st) = reconnectAttempts st"
    and "reconnectTimers (disconnect st) = reconnectTimers st"
proof -
  have "filter (\<lambda>(i, h). i \<notin> fst ` set (requestMap st)) (requestMap st) = []"
    by (auto simp: filter_empty_conv image_iff)
  with assms show "requestMap (disconnect st) = []"
    by (simp add: disconnect_def Let_def reject_all_requestMap)
  from assms show "settled (disconnect st)
           = settled st @ map (\<lambda>(i, h). (h, Rejected ConnectionClosed)) (requestMap st)"
    by (simp add: disconnect_def Let_def reject_all_settled)
  from assms show "closeCalls (disconnect st) = closeCalls st @ [k]"
    by (simp add: disconnect_def Let_def reject_all_rest)
  from assms show "reconnectAttempts (disconnect st) = reconnectAttempts st"
    by (simp add: disconnect_def Let_def reject_all_rest)
  from assms show "reconnectTimers (disconnect st) = reconnectTimers st"
    by (simp add: disconnect_def Let_def reject_all_rest)
qed

lemma disconnect_rejects:
  assumes "ws st = Some k" and "(i, h) \<in> set (requestMap st)"
  shows "(h, Rejected ConnectionClosed) \<in> set (settled (disconnect st))"
    and "outcome_of st h = None \<Longrightarrow> outcome_of (disconnect st) h = Some (Rejected ConnectionClosed)"
proof -
  from assms show "(h, Rejected ConnectionClosed) \<in> set (settled (disconnect st))"
    by (force simp: disconnect_open(2))
  assume "outcome_of st h = None"
  with assms show "outcome_of (disconnect st) h = Some (Rejected ConnectionClosed)"
    by (simp add: outcome_of_def disconnect_open(2) map_add_def map_of_all_rejected)
qed

lemma on_close_schedules:
  "reconnectAttempts st < maxReconnectAttempts \<Longrightarrow>
   reconnectTimers (on_close k code reason st)
     = reconnectTimers st @ [reconnectInterval * reconnectBackoffMultiplier ^ reconnectAttempts st]"
  by (simp add: on_close_def attemptReconnect_def emit_def clear_connection_timer_def Let_def)

text \<open>
  Claim C5, as stated, fails in its last part. The client has one request pending and
  the caller disconnects; \<open>disconnect\<close> closes socket 0 and schedules nothing itself.
  The socket then reports the close, its handler calls \<open>attemptReconnect\<close>, and a
  reconnect is scheduled after 3000 ms.

  It also fails for a request that has lost its entry. In \<open>client_two_requests\<close> the
  entry of the first request was replaced by the second, which has the same key.
  \<open>disconnect\<close> goes through the entries of the map: it rejects the second request and
  leaves the first with no outcome and with its timer running.
\<close>

theorem disconnect_then_close_reconnects:
  "closeCalls client_disconnected = [0]
   \<and> reconnectTimers client_disconnected = []
   \<and> reconnectTimers client_after_disconnect = [3000]
   \<and> last (emitted client_after_disconnect) = EvReconnecting 1
   \<and> outcome_of client_two_requests 1 = None
   \<and> outcome_of (disconnect client_two_requests) 1 = None
   \<and> outcome_of (disconnect client_two_requests) 2 = Some (Rejected ConnectionClosed)
   \<and> reqTimers (disconnect client_two_requests) = [(1, 1700000001000, ''get_channels'')]"
  by (simp add: client_scenario authenticated_state client_defs Let_def)

text \<open>
  Claim C5, amended. On a client that holds a socket, \<open>disconnect\<close> rejects every request
  that has an entry in the correlation map with \<open>Connection closed\<close>, which is the
  outcome of each such promise that had none, and leaves the map empty. It closes the
  socket and schedules no reconnect itself, but it does not suppress reconnection: when
  the closed socket reports its close, a reconnect attempt is scheduled with the usual
  delay, as long as fewer than the maximum number of attempts have been counted.
\<close>

theorem disconnect_rejects_map_entries:
  "ws st = Some k \<longrightarrow>
     requestMap (disconnect st) = []
     \<and> (\<forall>(i, h) \<in> set (requestMap st).
          (h, Rejected ConnectionClosed) \<in> set (settled (disconnect st))
          \<and> (outcome_of st h = None
               \<longrightarrow> outcome_of (disconnect st) h = Some (Rejected ConnectionClosed)))
     \<and> closeCalls (disconnect st) = closeCalls st @ [k]
     \<and> reconnectTimers (disconnect st) = reconnectTimers st
     \<and> (reconnectAttempts st < maxReconnectAttempts \<longrightarrow>
          reconnectTimers (on_close k code reason (disconnect st))
            = reconnectTimers st
              @ [reconnectInterval * reconnectBackoffMultiplier ^ reconnectAttempts st])"
  using disconnect_open [of st k] disconnect_rejects [of st k]
    on_close_schedules [of "disconnect st" k code reason]
  by auto

theorem disconnect_rejects_map_entries_witness:
  "requestMap (disconnect client_requesting) = []
   \<and> outcome_of (disconnect client_requesting) 1 = Some (Rejected ConnectionClosed)
   \<and> reconnectTimers (on_close 0 1000 ''User initiated disconnect'' (disconnect client_requesting))
       = [3000]"
proof -
  have st: "ws client_requesting = Some 0 \<and> requestMap client_requesting = [(1700000001000, 1)]
     \<and> outcome_of client_requesting 1 = None \<and> reconnectAttempts client_requesting = 0
     \<and> reconnectTimers client_requesting = []"
    by (simp add: client_requesting_def authenticated_state client_defs Let_def)
  from disconnect_rejects_map_entries [of client_requesting 0 1000 "''User initiated disconnect''"] st show ?thesis
    by (simp add: maxReconnectAttempts_def reconnectInterval_def reconnectBackoffMultiplier_def)
qed

subsection \<open>Reconnecting\<close>
















subsection \<open>The handshake\<close>

lemma on_open_resolves:
  assumes "initialized st" and "outcome_of st k = None"
  shows "outcome_of (on_open k now True st) k = Some ResolvedVoid
    \<and> connectionStatus (on_open k now True st) = Authenticating
    \<and> isAuthenticated (on_open k now True st) = isAuthenticated st"
  using assms
  by (simp add: on_open_def startAuthentication_def emit_def clear_connection_timer_def
      settle_def ws_send_def outcome_of_def Let_def map_add_def split: option.splits)

lemma refused_verify_changes_nothing:
  "\<not> success r \<Longrightarrow> handleMessage (Message (Some (i, ''auth_verify'', r)) err) now ok st = st"
  by (simp add: handleMessage_def handleAuthSuccess_def)

text \<open>
  Claim C4. The service is initialized, \<open>connect()\<close> is called and socket 0 opens.
  The promise of \<open>connect()\<close> is resolved as soon as the \<open>auth_request\<close> is sent:
  the status is Authenticating and the client is not authenticated. The server sends
  its challenge, the client answers with \<open>auth_verify\<close>, and the server refuses: the
  promise is still the resolved one, nothing was rejected with \<open>Authentication failed\<close>,
  and the client stays unauthenticated.
\<close>

theorem connect_resolves_before_authentication: "snd (connect client_ready) = 0
  \<and> outcome_of client_opened 0 = Some ResolvedVoid
  \<and> connectionStatus client_opened = Authenticating
  \<and> \<not> isAuthenticated client_opened
  \<and> map frame_method (sent client_challenged) = [''auth_request'', ''auth_verify'']
  \<and> outcome_of client_refused 0 = Some ResolvedVoid
  \<and> connectionStatus client_refused = Authenticating
  \<and> \<not> isAuthenticated client_refused"
  by (simp add: client_scenario client_defs Let_def)

subsection \<open>Every step keeps the state well-formed\<close>

lemma wf_new_client: "wf_client new_client"
  by (simp add: wf_client_def new_client_def)

lemma wf_cong:
  "requestMap st' = requestMap st \<Longrightarrow> settled st' = settled st \<Longrightarrow> nextId st' = nextId st
   \<Longrightarrow> wf_client st' = wf_client st"
  by (simp add: wf_client_def)

lemma wf_initialize: "wf_client st \<Longrightarrow> wf_client (initialize ok st)"
  by (simp add: wf_client_def initialize_def)

lemma wf_connect: "wf_client st \<Longrightarrow> wf_client (fst (connect st))"
  by (auto simp: wf_client_def connect_def settle_def emit_def Let_def list_all_iff
      split: option.splits)

lemma wf_on_open: "wf_client st \<Longrightarrow> k < nextId st \<Longrightarrow> wf_client (on_open k now ok st)"
  by (auto simp: wf_client_def on_open_def startAuthentication_def settle_def emit_def
      clear_connection_timer_def ws_send_def Let_def split: option.splits)

lemma wf_settle_delete:
  assumes "wf_client st" and "map_get (requestMap st) i = Some h"
  shows "wf_client ((settle h out (clear_request_timer h st))
           \<lparr>requestMap := map_delete i (requestMap (settle h out (clear_request_timer h st)))\<rparr>)"
proof -
  from assms(2) have "(i, h) \<in> set (requestMap st)"
    by (simp add: map_get_def map_of_SomeD)
  with assms(1) have "h < nextId st"
    by (auto simp: wf_client_def list_all_iff)
  with assms(1) show ?thesis
    by (simp add: wf_client_def settle_def clear_request_timer_def list_all_delete)
qed

lemma wf_emit: "wf_client (emit ev st) = wf_client st"
  by (simp add: wf_client_def emit_def)

lemma wf_ws_send: "wf_client (ws_send f st) = wf_client st"
  by (simp add: wf_client_def ws_send_def split: option.splits)

lemma wf_dispatch_response: "wf_client st \<Longrightarrow> wf_client (dispatch_response i r st)"
  using wf_settle_delete [of st i]
  by (auto simp: dispatch_response_def Let_def split: option.splits)

lemma wf_dispatch_error: "wf_client st \<Longrightarrow> wf_client (dispatch_error i c m st)"
  using wf_settle_delete [of st i]
  by (auto simp: dispatch_error_def Let_def wf_emit split: option.splits)

lemma wf_err_branch: "wf_client st \<Longrightarrow> wf_client (err_branch err st)"
  by (auto simp: err_branch_def wf_dispatch_error split: option.splits)

lemma wf_auth_challenge:
  "wf_client (case handleAuthChallenge r now ok st of Inl e \<Rightarrow> st | Inr st1 \<Rightarrow> st1)
     = wf_client st"
  by (simp add: handleAuthChallenge_def wf_ws_send split: option.splits)

lemma wf_auth_success:
  "wf_client (case handleAuthSuccess r st of Inl e \<Rightarrow> st | Inr st1 \<Rightarrow> st1) = wf_client st"
  by (simp add: handleAuthSuccess_def wf_client_def emit_def)

lemma wf_handleMessage:
  assumes "wf_client st"
  shows "wf_client (handleMessage d now ok st)"
proof (cases d)
  case Unparseable
  with assms show ?thesis by (simp add: handleMessage_def)
next
  case (Message res err)
  show ?thesis
  proof (cases res)
    case None
    with Message assms show ?thesis
      by (simp add: handleMessage_no_res wf_err_branch)
  next
    case (Some triple)
    obtain i m r where triple: "triple = (i, m, r)" by (cases triple)
    consider "m = ''auth_challenge''" | "m = ''auth_verify''" | "\<not> handshake_method m"
      by (auto simp: handshake_method_def)
    then show ?thesis
    proof cases
      case 1
      with Message Some triple assms show ?thesis
        by (simp add: handleMessage_challenge wf_auth_challenge)
    next
      case 2
      with Message Some triple assms show ?thesis
        by (simp add: handleMessage_verify wf_auth_success)
    next
      case 3
      with Message Some triple assms show ?thesis
        by (simp add: handleMessage_plain wf_err_branch wf_emit wf_dispatch_response)
    qed
  qed
qed

lemma wf_sendRequest:
  assumes "wf_client st"
  shows "wf_client (fst (sendRequest m a t tf ok st))"
proof -
  from assms have rm: "list_all (\<lambda>(i, h). h < nextId st + 1) (requestMap st)"
    and se: "list_all (\<lambda>(h, out). h < nextId st + 1) (settled st)"
    by (auto simp: wf_client_def list_all_iff)
  from rm have rm': "list_all (\<lambda>(i, h). h < nextId st + 1)
      (map_set t (nextId st) (requestMap st))"
    by (intro list_all_map_set) simp_all
  then have rm'': "list_all (\<lambda>(i, h). h < nextId st + 1)
      (map_delete t (map_set t (nextId st) (requestMap st)))"
    by (rule list_all_delete)
  from rm se rm' rm'' show ?thesis
    by (simp add: wf_client_def sendRequest_def settle_def ws_send_def clear_request_timer_def
        Let_def split: option.splits)
qed

lemma wf_on_request_timeout:
  "wf_client st \<Longrightarrow> p < nextId st \<Longrightarrow> wf_client (on_request_timeout p i m st)"
  by (auto simp: wf_client_def on_request_timeout_def settle_def Let_def list_all_iff
      map_delete_def)

lemma wf_attemptReconnect: "wf_client (attemptReconnect st) = wf_client st"
  by (simp add: wf_client_def attemptReconnect_def emit_def Let_def)

lemma wf_on_close: "wf_client st \<Longrightarrow> wf_client (on_close k code reason st)"
  by (simp add: on_close_def wf_attemptReconnect wf_emit Let_def)
     (simp add: wf_client_def clear_connection_timer_def)

lemma wf_on_error: "wf_client st \<Longrightarrow> wf_client (on_error k msg st)"
  by (simp add: on_error_def wf_emit) (simp add: wf_client_def clear_connection_timer_def)

lemma wf_on_connection_timeout:
  "wf_client st \<Longrightarrow> k < nextId st \<Longrightarrow> wf_client (on_connection_timeout k st)"
  by (auto simp: wf_client_def on_connection_timeout_def settle_def clear_connection_timer_def
      Let_def split: option.splits)

lemma wf_on_reconnect_timer: "wf_client st \<Longrightarrow> wf_client (on_reconnect_timer d st)"
proof -
  assume wf: "wf_client st"
  then have "wf_client (st\<lparr>reconnectTimers := remove1 d (reconnectTimers st)\<rparr>)"
    by (simp add: wf_client_def)
  then have "wf_client (fst (connect (st\<lparr>reconnectTimers := remove1 d (reconnectTimers st)\<rparr>)))"
    by (rule wf_connect)
  with wf show ?thesis
    by (simp add: on_reconnect_timer_def)
qed

lemma wf_disconnect: "wf_client st \<Longrightarrow> wf_client (disconnect st)"
proof (cases "ws st")
  case None
  assume "wf_client st"
  with None show ?thesis
    by (simp add: disconnect_def wf_client_def)
next
  case (Some k)
  assume wf: "wf_client st"
  then have "list_all (\<lambda>(h, out). h < nextId st)
      (map (\<lambda>(i, h). (h, Rejected ConnectionClosed)) (requestMap st))"
    by (auto simp: wf_client_def list_all_iff)
  with wf Some show ?thesis
    by (auto simp: disconnect_def Let_def wf_client_def reject_all_requestMap reject_all_settled
        reject_all_rest list_all_iff)
qed

end
